theory Spec2Isabelle
  imports Complex_Main "HOL-Library.AList"
begin

section \<open>The rebalancing simulator of \<^verbatim>\<open>src/app.py\<close>\<close>

text \<open>
  The script compares two policies over a table of daily close prices: a portfolio that is
  brought back to equal weights every \<^verbatim>\<open>rebalance_period\<close> rows, and one that is bought once
  and held. This theory embeds the part of the script that runs when the button is pressed
  (lines 37 to 152) and proves properties of it.

  Numbers. Prices, share counts and values are \<^verbatim>\<open>float64\<close> in the script. They are
  idealised here as real numbers: rounding and overflow are not modelled. A division of a
  \<^verbatim>\<open>float64\<close> by zero does not raise in numpy: it gives \<^verbatim>\<open>inf\<close> or \<^verbatim>\<open>nan\<close> with a
  RuntimeWarning and the script goes on. The reals have no such values. Where the quotient
  is a share count, which every later value depends on, the model stops there with the
  outcome \<open>NonFinite\<close>, which is not an exception of the script. Where it is the drift
  percentage, which is written to the log and never read again, the log records
  \<open>Inf_or_NaN\<close> and the run goes on, as in the script. The division \<^verbatim>\<open>1 / n_assets\<close> and the
  modulus \<^verbatim>\<open>i % rebalance_period\<close> are on Python integers and do raise
  \<^verbatim>\<open>ZeroDivisionError\<close>.
\<close>

subsection \<open>Data\<close>

type_synonym ticker = string

text \<open>An entry of the frame's index, as \<^verbatim>\<open>strftime("%Y-%m-%d")\<close> renders it.\<close>

type_synonym date = string

text \<open>
  A row \<^verbatim>\<open>prices_df.iloc[i]\<close>. Line 62 names the columns of the frame after
  \<^verbatim>\<open>tickers_clean\<close>, so a row has a price for every ticker the simulation asks for.
\<close>

type_synonym price_row = "ticker \<Rightarrow> real"

type_synonym prices_frame = "(date \<times> price_row) list"

datatype py_exception = IndexError | ZeroDivisionError | KeyError ticker | ValueError

datatype abort = Raise py_exception | NonFinite

text \<open>A \<^verbatim>\<open>float64\<close> that is only stored: a real number, or one of \<^verbatim>\<open>inf\<close>, \<^verbatim>\<open>-inf\<close>, \<^verbatim>\<open>nan\<close>.\<close>

datatype float64 = Finite real | Inf_or_NaN

text \<open>
  A row of \<^verbatim>\<open>rebalance_log\<close> (lines 134 to 142). The dictionary keys \<^verbatim>\<open>"Date"\<close>,
  \<^verbatim>\<open>f"{t} Equity (Before)"\<close>, \<^verbatim>\<open>f"{t} Drift (%)"\<close> and \<^verbatim>\<open>f"{t} Transfer"\<close> are pairwise
  different for different tickers and suffixes, so the row is one field and three maps.
\<close>

record log_row =
  Date :: date
  Equity_Before :: "ticker \<rightharpoonup> real"
  Drift :: "ticker \<rightharpoonup> float64"
  Transfer :: "ticker \<rightharpoonup> real"

text \<open>The variables of lines 93 to 102 that live across the days.\<close>

record sim_state =
  shares_reb :: "ticker \<rightharpoonup> real"
  shares_hold :: "ticker \<rightharpoonup> real"
  equity_reb_curves :: "ticker \<rightharpoonup> real list"
  equity_hold_curves :: "ticker \<rightharpoonup> real list"
  portfolio_reb_curve :: "real list"
  portfolio_hold_curve :: "real list"
  rebalance_log :: "log_row list"

text \<open>The variables of lines 111 to 114, fresh on every day.\<close>

record valuation =
  values_reb :: "ticker \<rightharpoonup> real"
  values_hold :: "ticker \<rightharpoonup> real"
  total_reb :: real
  total_hold :: real

subsection \<open>Primitive operations\<close>

text \<open>\<^verbatim>\<open>d[t]\<close> on a dictionary.\<close>

definition getitem :: "(ticker \<rightharpoonup> 'a) \<Rightarrow> ticker \<Rightarrow> abort + 'a" where
  "getitem d t = (case d t of None \<Rightarrow> Inl (Raise (KeyError t)) | Some v \<Rightarrow> Inr v)"

text \<open>\<^verbatim>\<open>a / b\<close> on \<^verbatim>\<open>float64\<close>, where the quotient is computed with afterwards.\<close>

definition np_divide :: "real \<Rightarrow> real \<Rightarrow> abort + real" where
  "np_divide a b = (if b = 0 then Inl NonFinite else Inr (a / b))"

text \<open>
  Line 137: \<^verbatim>\<open>(values_reb[t] / target_value - 1) * 100\<close>. With a target of zero the
  quotient is \<^verbatim>\<open>inf\<close>, \<^verbatim>\<open>-inf\<close> or \<^verbatim>\<open>nan\<close>, and so is the percentage.
\<close>

definition drift_pct_of :: "real \<Rightarrow> real \<Rightarrow> float64" where
  "drift_pct_of v target_value =
     (if target_value = 0 then Inf_or_NaN else Finite ((v / target_value - 1) * 100))"

text \<open>\<^verbatim>\<open>prices_df.iloc[i]\<close>, with the index entry of that row.\<close>

definition iloc :: "prices_frame \<Rightarrow> nat \<Rightarrow> abort + (date \<times> price_row)" where
  "iloc df i = (if i < length df then Inr (df ! i) else Inl (Raise IndexError))"

text \<open>Line 91: \<^verbatim>\<open>target_weight = 1 / n_assets\<close>, with \<^verbatim>\<open>n_assets = len(tickers_clean)\<close>.\<close>

definition target_weight_of :: "ticker list \<Rightarrow> abort + real" where
  "target_weight_of tickers_clean =
     (let n_assets = length tickers_clean
      in if n_assets = 0 then Inl (Raise ZeroDivisionError) else Inr (1 / real n_assets))"

text \<open>
  Line 132: \<^verbatim>\<open>i > 0 and i % rebalance_period == 0\<close>. The conjunction is short-circuit, so
  the modulus is taken only when \<open>i > 0\<close>. Python's \<^verbatim>\<open>%\<close> on integers and \<open>mod\<close> on \<open>int\<close>
  both take the sign of the divisor.
\<close>

definition rebalance_due :: "nat \<Rightarrow> int \<Rightarrow> abort + bool" where
  "rebalance_due i rebalance_period =
     (if i > 0
      then (if rebalance_period = 0 then Inl (Raise ZeroDivisionError)
            else Inr (int i mod rebalance_period = 0))
      else Inr False)"

subsection \<open>The simulation, lines 90 to 146\<close>

text \<open>Lines 93 to 102.\<close>

definition empty_state :: "ticker list \<Rightarrow> sim_state" where
  "empty_state tickers_clean =
     \<lparr>shares_reb = Map.empty, shares_hold = Map.empty,
      equity_reb_curves = map_of (map (\<lambda>t. (t, [])) tickers_clean),
      equity_hold_curves = map_of (map (\<lambda>t. (t, [])) tickers_clean),
      portfolio_reb_curve = [], portfolio_hold_curve = [], rebalance_log = []\<rparr>"

text \<open>Lines 105 to 108, the loop over \<^verbatim>\<open>tickers_clean\<close>.\<close>

fun initial_allocation ::
  "real \<Rightarrow> real \<Rightarrow> prices_frame \<Rightarrow> ticker list \<Rightarrow> sim_state \<Rightarrow> abort + sim_state" where
  "initial_allocation initial_equity target_weight prices_df [] s = Inr s"
| "initial_allocation initial_equity target_weight prices_df (t # ts) s =
     (let alloc = initial_equity * target_weight in
      case iloc prices_df 0 of Inl e \<Rightarrow> Inl e | Inr (d0, row0) \<Rightarrow>
     (case np_divide alloc (row0 t) of Inl e \<Rightarrow> Inl e | Inr q_reb \<Rightarrow>
     (case np_divide alloc (row0 t) of Inl e \<Rightarrow> Inl e | Inr q_hold \<Rightarrow>
        initial_allocation initial_equity target_weight prices_df ts
          (s\<lparr>shares_reb := (shares_reb s)(t \<mapsto> q_reb),
             shares_hold := (shares_hold s)(t \<mapsto> q_hold)\<rparr>))))"

text \<open>Lines 116 to 127, the loop over \<^verbatim>\<open>tickers_clean\<close> on day \<open>i\<close> with row \<open>row\<close>.\<close>

fun valuation_loop ::
  "price_row \<Rightarrow> ticker list \<Rightarrow> sim_state \<times> valuation \<Rightarrow> abort + (sim_state \<times> valuation)" where
  "valuation_loop row [] sv = Inr sv"
| "valuation_loop row (t # ts) (s, v) =
     (case getitem (shares_reb s) t of Inl e \<Rightarrow> Inl e | Inr n_reb \<Rightarrow>
     (case getitem (shares_hold s) t of Inl e \<Rightarrow> Inl e | Inr n_hold \<Rightarrow>
      let v_reb = n_reb * row t; v_hold = n_hold * row t in
     (case getitem (equity_reb_curves s) t of Inl e \<Rightarrow> Inl e | Inr c_reb \<Rightarrow>
     (case getitem (equity_hold_curves s) t of Inl e \<Rightarrow> Inl e | Inr c_hold \<Rightarrow>
        valuation_loop row ts
          (s\<lparr>equity_reb_curves := (equity_reb_curves s)(t \<mapsto> c_reb @ [v_reb]),
             equity_hold_curves := (equity_hold_curves s)(t \<mapsto> c_hold @ [v_hold])\<rparr>,
           v\<lparr>values_reb := (values_reb v)(t \<mapsto> v_reb),
             values_hold := (values_hold v)(t \<mapsto> v_hold),
             total_reb := total_reb v + v_reb,
             total_hold := total_hold v + v_hold\<rparr>)))))"

text \<open>Lines 136 to 144, the loop over \<^verbatim>\<open>tickers_clean\<close> inside the rebalance block.\<close>

fun reallocation_loop ::
  "real \<Rightarrow> price_row \<Rightarrow> (ticker \<rightharpoonup> real) \<Rightarrow> ticker list \<Rightarrow> log_row \<times> sim_state
     \<Rightarrow> abort + (log_row \<times> sim_state)" where
  "reallocation_loop target_value row vals [] ls = Inr ls"
| "reallocation_loop target_value row vals (t # ts) (lr, s) =
     (case getitem vals t of Inl e \<Rightarrow> Inl e | Inr v \<Rightarrow>
      let drift_pct = drift_pct_of v target_value;
          transfer = target_value - v in
     (case np_divide target_value (row t) of Inl e \<Rightarrow> Inl e | Inr q \<Rightarrow>
        reallocation_loop target_value row vals ts
          (lr\<lparr>Equity_Before := (Equity_Before lr)(t \<mapsto> v),
              Drift := (Drift lr)(t \<mapsto> drift_pct),
              Transfer := (Transfer lr)(t \<mapsto> transfer)\<rparr>,
           s\<lparr>shares_reb := (shares_reb s)(t \<mapsto> q)\<rparr>)))"

text \<open>Lines 111 to 146, the body of the loop over the dates, at index \<open>i\<close>.\<close>

definition day_step ::
  "ticker list \<Rightarrow> real \<Rightarrow> int \<Rightarrow> nat \<Rightarrow> date \<Rightarrow> price_row \<Rightarrow> sim_state \<Rightarrow> abort + sim_state" where
  "day_step tickers_clean target_weight rebalance_period i d row s =
     (case valuation_loop row tickers_clean
             (s, \<lparr>values_reb = Map.empty, values_hold = Map.empty,
                  total_reb = 0, total_hold = 0\<rparr>) of
        Inl e \<Rightarrow> Inl e
      | Inr (s1, v) \<Rightarrow>
          let s2 = s1\<lparr>portfolio_reb_curve := portfolio_reb_curve s1 @ [total_reb v],
                      portfolio_hold_curve := portfolio_hold_curve s1 @ [total_hold v]\<rparr> in
          (case rebalance_due i rebalance_period of
            Inl e \<Rightarrow> Inl e
          | Inr False \<Rightarrow> Inr s2
          | Inr True \<Rightarrow>
              let target_value = total_reb v * target_weight;
                  new_row = \<lparr>Date = d, Equity_Before = Map.empty, Drift = Map.empty,
                             Transfer = Map.empty\<rparr> in
              (case reallocation_loop target_value row (values_reb v) tickers_clean (new_row, s2) of
                Inl e \<Rightarrow> Inl e
              | Inr (lr, s3) \<Rightarrow> Inr (s3\<lparr>rebalance_log := rebalance_log s3 @ [lr]\<rparr>))))"

text \<open>
  Line 110, \<^verbatim>\<open>for i, date in enumerate(prices_df.index)\<close>: the rows still to come, with the
  index \<open>i\<close> of the first of them. Row \<open>i\<close> of the frame is \<^verbatim>\<open>prices_df.iloc[i]\<close>.
\<close>

fun day_loop ::
  "ticker list \<Rightarrow> real \<Rightarrow> int \<Rightarrow> nat \<Rightarrow> prices_frame \<Rightarrow> sim_state \<Rightarrow> abort + sim_state" where
  "day_loop tickers_clean target_weight rebalance_period i [] s = Inr s"
| "day_loop tickers_clean target_weight rebalance_period i ((d, row) # rest) s =
     (case day_step tickers_clean target_weight rebalance_period i d row s of
        Inl e \<Rightarrow> Inl e
      | Inr s' \<Rightarrow> day_loop tickers_clean target_weight rebalance_period (Suc i) rest s')"

text \<open>Lines 90 to 108: the state when the loop over the dates starts.\<close>

definition initial_state :: "ticker list \<Rightarrow> real \<Rightarrow> prices_frame \<Rightarrow> abort + sim_state" where
  "initial_state tickers_clean initial_equity prices_df =
     (case target_weight_of tickers_clean of
        Inl e \<Rightarrow> Inl e
      | Inr target_weight \<Rightarrow>
          initial_allocation initial_equity target_weight prices_df tickers_clean
            (empty_state tickers_clean))"

text \<open>Lines 90 to 146.\<close>

definition simulate :: "ticker list \<Rightarrow> real \<Rightarrow> int \<Rightarrow> prices_frame \<Rightarrow> abort + sim_state" where
  "simulate tickers_clean initial_equity rebalance_period prices_df =
     (case target_weight_of tickers_clean of
        Inl e \<Rightarrow> Inl e
      | Inr target_weight \<Rightarrow>
          (case initial_state tickers_clean initial_equity prices_df of
            Inl e \<Rightarrow> Inl e
          | Inr s0 \<Rightarrow> day_loop tickers_clean target_weight rebalance_period 0 prices_df s0))"

text \<open>
  The state at the end of iteration \<open>i\<close> of the loop over the dates: the iterations
  \<open>0, \<dots>, i\<close> have read the rows \<open>0, \<dots>, i\<close> and nothing else of the frame beyond row 0.
\<close>

definition state_after :: "ticker list \<Rightarrow> real \<Rightarrow> int \<Rightarrow> prices_frame \<Rightarrow> nat \<Rightarrow> abort + sim_state" where
  "state_after tickers_clean initial_equity rebalance_period prices_df i =
     (case target_weight_of tickers_clean of
        Inl e \<Rightarrow> Inl e
      | Inr target_weight \<Rightarrow>
          (case initial_state tickers_clean initial_equity prices_df of
            Inl e \<Rightarrow> Inl e
          | Inr s0 \<Rightarrow>
              day_loop tickers_clean target_weight rebalance_period 0 (take (Suc i) prices_df) s0))"

subsection \<open>The run, lines 37 to 146\<close>

text \<open>
  The input of the run is the list \<^verbatim>\<open>tickers\<close> of line 25 (the lines of the text area that
  are not blank, stripped, in upper case, with \<^verbatim>\<open>".JK"\<close> appended), the initial equity and
  the rebalancing period. Line 26 removes every \<^verbatim>\<open>".JK"\<close> from a ticker, from left to right.
\<close>

fun remove_JK :: "string \<Rightarrow> string" where
  "remove_JK (c1 # c2 # c3 # cs) =
     (if [c1, c2, c3] = ''.JK'' then remove_JK cs else c1 # remove_JK (c2 # c3 # cs))"
| "remove_JK cs = cs"

text \<open>What the run does that can be seen from outside, in order.\<close>

datatype effect = St_warning string | St_error string | Yf_download ticker

text \<open>
  How the run ends: \<^verbatim>\<open>st.stop()\<close>, an exception (or a value that is no real number), or
  the end of the simulation with its state.
\<close>

datatype outcome = Stopped | Aborted abort | Completed sim_state

text \<open>
  Lines 49 to 59. The frames come from yfinance, so \<open>download\<close> and the test \<^verbatim>\<open>df.empty\<close>
  (\<open>is_empty\<close>) are parameters. \<^verbatim>\<open>price_data\<close> is a dictionary keyed by the cleaned ticker: a key that
  is already there keeps its place and takes the new value.
\<close>

fun fetch_loop ::
  "(ticker \<Rightarrow> 'f) \<Rightarrow> ('f \<Rightarrow> bool) \<Rightarrow> ticker list \<Rightarrow> (ticker \<times> 'f) list \<Rightarrow> effect list
     \<Rightarrow> effect list \<times> (ticker \<times> 'f) list option" where
  "fetch_loop download is_empty [] price_data eff = (eff, Some price_data)"
| "fetch_loop download is_empty (ticker # rest) price_data eff =
     (let df = download ticker; eff1 = eff @ [Yf_download ticker] in
      if is_empty df then (eff1 @ [St_error (''No data for '' @ ticker)], None)
      else fetch_loop download is_empty rest (AList.update (remove_JK ticker) df price_data) eff1)"

text \<open>
  Lines 39 to 146, without the price chart. Lines 61 to 63 are pandas: \<open>table\<close> stands for
  the concatenation of the close columns, renamed to the labels it is given, with the
  incomplete rows dropped. Line 62 raises \<^verbatim>\<open>ValueError\<close> when the number of labels is not the
  number of columns.
\<close>

definition run ::
  "(ticker \<Rightarrow> 'f) \<Rightarrow> ('f \<Rightarrow> bool) \<Rightarrow> ('f list \<Rightarrow> ticker list \<Rightarrow> prices_frame)
     \<Rightarrow> ticker list \<Rightarrow> real \<Rightarrow> int \<Rightarrow> effect list \<times> outcome" where
  "run download is_empty table tickers initial_equity rebalance_period =
     (let tickers_clean = map remove_JK tickers in
      if \<not> (2 \<le> length tickers \<and> length tickers \<le> 5)
      then ([St_warning ''Please input between 2 and 5 tickers.''], Stopped)
      else (case fetch_loop download is_empty tickers [] [] of
              (eff, None) \<Rightarrow> (eff, Stopped)
            | (eff, Some price_data) \<Rightarrow>
                if length price_data \<noteq> length tickers_clean
                then (eff, Aborted (Raise ValueError))
                else (case simulate tickers_clean initial_equity rebalance_period
                             (table (map snd price_data) tickers_clean) of
                        Inl e \<Rightarrow> (eff, Aborted e)
                      | Inr s \<Rightarrow> (eff, Completed s))))"

subsection \<open>Concrete inputs\<close>

text \<open>
  The price table of the scenario of the specification: two assets, three dates, prices
  100, 110, 121 for \<open>A\<close> and 200, 190, 180.5 for \<open>B\<close>.
\<close>

definition scenario_prices :: prices_frame where
  "scenario_prices =
     [(''2024-01-01'', (\<lambda>t. 0)(''A'' := 100, ''B'' := 200)),
      (''2024-01-02'', (\<lambda>t. 0)(''A'' := 110, ''B'' := 190)),
      (''2024-01-03'', (\<lambda>t. 0)(''A'' := 121, ''B'' := 361 / 2))]"

text \<open>Two assets whose prices never move.\<close>

definition flat_prices :: prices_frame where
  "flat_prices =
     [(''2024-01-01'', (\<lambda>t. 0)(''A'' := 100, ''B'' := 200)),
      (''2024-01-02'', (\<lambda>t. 0)(''A'' := 100, ''B'' := 200)),
      (''2024-01-03'', (\<lambda>t. 0)(''A'' := 100, ''B'' := 200))]"



subsection \<open>Notions used in the statements\<close>

text \<open>
  What a tracker is worth on a row: the sum, over \<^verbatim>\<open>tickers_clean\<close> in order, of share count
  times price. It is the value that lines 126 and 127 accumulate in \<^verbatim>\<open>total_reb\<close> and
  \<^verbatim>\<open>total_hold\<close>.
\<close>

definition holdings_value :: "(ticker \<rightharpoonup> real) \<Rightarrow> ticker list \<Rightarrow> price_row \<Rightarrow> real" where
  "holdings_value shares ts row = (\<Sum>t\<leftarrow>ts. the (shares t) * row t)"

text \<open>
  A row of the log is balanced when, for every ticker, the transfer is the equal share of
  the sum of the values before rebalancing, minus the ticker's own value before.
\<close>

definition event_balanced :: "ticker list \<Rightarrow> log_row \<Rightarrow> bool" where
  "event_balanced ts ev \<longleftrightarrow>
     (\<forall>t\<in>set ts. \<exists>v. Equity_Before ev t = Some v \<and>
        Transfer ev t = Some ((\<Sum>u\<leftarrow>ts. the (Equity_Before ev u)) / real (length ts) - v))"

section \<open>The loops over the tickers\<close>

subsection \<open>Initial allocation\<close>

lemma initial_allocation_Inr:
  "initial_allocation eq tw prices ts s = Inr s' \<Longrightarrow>
     (ts \<noteq> [] \<longrightarrow> prices \<noteq> []) \<and>
     (\<forall>t\<in>set ts. snd (prices ! 0) t \<noteq> 0
         \<and> shares_reb s' t = Some (eq * tw / snd (prices ! 0) t)
         \<and> shares_hold s' t = Some (eq * tw / snd (prices ! 0) t)) \<and>
     (\<forall>t. t \<notin> set ts \<longrightarrow> shares_reb s' t = shares_reb s t \<and> shares_hold s' t = shares_hold s t) \<and>
     s' = s\<lparr>shares_reb := shares_reb s', shares_hold := shares_hold s'\<rparr>"
proof (induction ts arbitrary: s)
  case Nil
  then show ?case by simp
next
  case (Cons t ts)
  from Cons.prems obtain d0 row0 where r0: "iloc prices 0 = Inr (d0, row0)"
    by (auto simp: Let_def split: sum.splits)
  then have ne: "prices \<noteq> []" and p0: "prices ! 0 = (d0, row0)"
    by (auto simp: iloc_def split: if_splits)
  from Cons.prems r0 have nz: "row0 t \<noteq> 0"
    by (auto simp: np_divide_def Let_def split: sum.splits if_splits)
  let ?q = "eq * tw / row0 t"
  let ?s1 = "s\<lparr>shares_reb := (shares_reb s)(t \<mapsto> ?q), shares_hold := (shares_hold s)(t \<mapsto> ?q)\<rparr>"
  from Cons.prems r0 nz have rec: "initial_allocation eq tw prices ts ?s1 = Inr s'"
    by (simp add: np_divide_def Let_def)
  note ih = Cons.IH [OF rec]
  show ?case
  proof (intro conjI)
    show "t # ts \<noteq> [] \<longrightarrow> prices \<noteq> []" using ne by simp
    show "\<forall>u\<in>set (t # ts). snd (prices ! 0) u \<noteq> 0
         \<and> shares_reb s' u = Some (eq * tw / snd (prices ! 0) u)
         \<and> shares_hold s' u = Some (eq * tw / snd (prices ! 0) u)"
      using ih nz p0 by (cases "t \<in> set ts") auto
    show "\<forall>u. u \<notin> set (t # ts) \<longrightarrow> shares_reb s' u = shares_reb s u \<and> shares_hold s' u = shares_hold s u"
      using ih by auto
    show "s' = s\<lparr>shares_reb := shares_reb s', shares_hold := shares_hold s'\<rparr>"
    proof -
      from ih have "s' = ?s1\<lparr>shares_reb := shares_reb s', shares_hold := shares_hold s'\<rparr>" by blast
      then show ?thesis by simp
    qed
  qed
qed

lemma initial_allocation_total:
  "prices \<noteq> [] \<Longrightarrow> \<forall>t\<in>set ts. snd (prices ! 0) t \<noteq> 0 \<Longrightarrow>
     \<exists>s'. initial_allocation eq tw prices ts s = Inr s'"
proof (induction ts arbitrary: s)
  case Nil
  then show ?case by simp
next
  case (Cons t ts)
  obtain d0 row0 where p0: "prices ! 0 = (d0, row0)" by (cases "prices ! 0")
  with Cons.prems have "iloc prices 0 = Inr (d0, row0)" and "row0 t \<noteq> 0"
    by (auto simp: iloc_def)
  with Cons show ?case
    by (simp add: np_divide_def Let_def)
qed

subsection \<open>Reallocation\<close>

lemma reallocation_loop_Inr:
  "reallocation_loop T row vals ts (lr, s) = Inr (lr', s') \<Longrightarrow>
     (\<forall>t\<in>set ts. \<exists>v. vals t = Some v \<and> row t \<noteq> 0
         \<and> Equity_Before lr' t = Some v
         \<and> Drift lr' t = Some (drift_pct_of v T)
         \<and> Transfer lr' t = Some (T - v)
         \<and> shares_reb s' t = Some (T / row t)) \<and>
     (\<forall>t. t \<notin> set ts \<longrightarrow> shares_reb s' t = shares_reb s t \<and> Equity_Before lr' t = Equity_Before lr t
         \<and> Drift lr' t = Drift lr t \<and> Transfer lr' t = Transfer lr t) \<and>
     Date lr' = Date lr \<and>
     s' = s\<lparr>shares_reb := shares_reb s'\<rparr>"
proof (induction ts arbitrary: lr s)
  case Nil
  then show ?case by simp
next
  case (Cons t ts)
  from Cons.prems obtain v where v: "vals t = Some v"
    by (auto simp: getitem_def split: option.splits sum.splits)
  from Cons.prems v have nz: "row t \<noteq> 0"
    by (auto simp: getitem_def np_divide_def Let_def split: sum.splits if_splits)
  let ?lr1 = "lr\<lparr>Equity_Before := (Equity_Before lr)(t \<mapsto> v),
                  Drift := (Drift lr)(t \<mapsto> drift_pct_of v T),
                  Transfer := (Transfer lr)(t \<mapsto> T - v)\<rparr>"
  let ?s1 = "s\<lparr>shares_reb := (shares_reb s)(t \<mapsto> T / row t)\<rparr>"
  from Cons.prems v nz have rec: "reallocation_loop T row vals ts (?lr1, ?s1) = Inr (lr', s')"
    by (simp add: getitem_def np_divide_def Let_def)
  note ih = Cons.IH [OF rec]
  show ?case
  proof (intro conjI)
    show "\<forall>u\<in>set (t # ts). \<exists>v. vals u = Some v \<and> row u \<noteq> 0
         \<and> Equity_Before lr' u = Some v
         \<and> Drift lr' u = Some (drift_pct_of v T)
         \<and> Transfer lr' u = Some (T - v)
         \<and> shares_reb s' u = Some (T / row u)"
      using ih v nz by (cases "t \<in> set ts") auto
    show "\<forall>u. u \<notin> set (t # ts) \<longrightarrow> shares_reb s' u = shares_reb s u \<and> Equity_Before lr' u = Equity_Before lr u
         \<and> Drift lr' u = Drift lr u \<and> Transfer lr' u = Transfer lr u"
      using ih by auto
    show "Date lr' = Date lr" using ih by simp
    show "s' = s\<lparr>shares_reb := shares_reb s'\<rparr>"
    proof -
      from ih have "s' = ?s1\<lparr>shares_reb := shares_reb s'\<rparr>" by blast
      then show ?thesis by simp
    qed
  qed
qed

lemma reallocation_loop_total:
  "\<forall>t\<in>set ts. row t \<noteq> 0 \<and> vals t \<noteq> None \<Longrightarrow>
     \<exists>r. reallocation_loop T row vals ts (lr, s) = Inr r"
  by (induction ts arbitrary: lr s) (auto simp: getitem_def np_divide_def Let_def)

subsection \<open>Valuation\<close>

lemma valuation_loop_Inr:
  "valuation_loop row ts (s, v) = Inr (s', v') \<Longrightarrow>
     (\<forall>t\<in>set ts. \<exists>n m. shares_reb s t = Some n \<and> shares_hold s t = Some m
         \<and> values_reb v' t = Some (n * row t) \<and> values_hold v' t = Some (m * row t)) \<and>
     (\<forall>t. t \<notin> set ts \<longrightarrow> values_reb v' t = values_reb v t \<and> values_hold v' t = values_hold v t) \<and>
     total_reb v' = total_reb v + holdings_value (shares_reb s) ts row \<and>
     total_hold v' = total_hold v + holdings_value (shares_hold s) ts row \<and>
     set ts \<subseteq> dom (equity_reb_curves s) \<and> set ts \<subseteq> dom (equity_hold_curves s) \<and>
     dom (equity_reb_curves s') = dom (equity_reb_curves s) \<and>
     dom (equity_hold_curves s') = dom (equity_hold_curves s) \<and>
     s' = s\<lparr>equity_reb_curves := equity_reb_curves s', equity_hold_curves := equity_hold_curves s'\<rparr>"
proof (induction ts arbitrary: s v)
  case Nil
  then show ?case by (simp add: holdings_value_def)
next
  case (Cons t ts)
  from Cons.prems obtain n m cr ch where
    g: "shares_reb s t = Some n" "shares_hold s t = Some m"
       "equity_reb_curves s t = Some cr" "equity_hold_curves s t = Some ch"
    by (auto simp: getitem_def Let_def split: option.splits sum.splits)
  let ?s1 = "s\<lparr>equity_reb_curves := (equity_reb_curves s)(t \<mapsto> cr @ [n * row t]),
               equity_hold_curves := (equity_hold_curves s)(t \<mapsto> ch @ [m * row t])\<rparr>"
  let ?v1 = "v\<lparr>values_reb := (values_reb v)(t \<mapsto> n * row t),
               values_hold := (values_hold v)(t \<mapsto> m * row t),
               total_reb := total_reb v + n * row t,
               total_hold := total_hold v + m * row t\<rparr>"
  from Cons.prems g have rec: "valuation_loop row ts (?s1, ?v1) = Inr (s', v')"
    by (simp add: getitem_def Let_def)
  note ih = Cons.IH [OF rec]
  show ?case
  proof (intro conjI)
    show "\<forall>u\<in>set (t # ts). \<exists>n m. shares_reb s u = Some n \<and> shares_hold s u = Some m
         \<and> values_reb v' u = Some (n * row u) \<and> values_hold v' u = Some (m * row u)"
      using ih g by (cases "t \<in> set ts") auto
    show "\<forall>u. u \<notin> set (t # ts) \<longrightarrow> values_reb v' u = values_reb v u \<and> values_hold v' u = values_hold v u"
      using ih by auto
    show "total_reb v' = total_reb v + holdings_value (shares_reb s) (t # ts) row"
      using ih g by (simp add: holdings_value_def)
    show "total_hold v' = total_hold v + holdings_value (shares_hold s) (t # ts) row"
      using ih g by (simp add: holdings_value_def)
    have dr: "t \<in> dom (equity_reb_curves s)" and dh: "t \<in> dom (equity_hold_curves s)"
      using g by auto
    from ih have "set ts \<subseteq> dom (equity_reb_curves ?s1)" by blast
    then show "set (t # ts) \<subseteq> dom (equity_reb_curves s)"
      using dr by (simp add: insert_absorb)
    from ih have "set ts \<subseteq> dom (equity_hold_curves ?s1)" by blast
    then show "set (t # ts) \<subseteq> dom (equity_hold_curves s)"
      using dh by (simp add: insert_absorb)
    from ih have "dom (equity_reb_curves s') = dom (equity_reb_curves ?s1)" by blast
    then show "dom (equity_reb_curves s') = dom (equity_reb_curves s)"
      using dr by (simp add: insert_absorb)
    from ih have "dom (equity_hold_curves s') = dom (equity_hold_curves ?s1)" by blast
    then show "dom (equity_hold_curves s') = dom (equity_hold_curves s)"
      using dh by (simp add: insert_absorb)
    show "s' = s\<lparr>equity_reb_curves := equity_reb_curves s', equity_hold_curves := equity_hold_curves s'\<rparr>"
    proof -
      from ih have "s' = ?s1\<lparr>equity_reb_curves := equity_reb_curves s', equity_hold_curves := equity_hold_curves s'\<rparr>"
        by blast
      then show ?thesis by simp
    qed
  qed
qed

lemma valuation_loop_total:
  "set ts \<subseteq> dom (shares_reb s) \<Longrightarrow> set ts \<subseteq> dom (shares_hold s) \<Longrightarrow>
   set ts \<subseteq> dom (equity_reb_curves s) \<Longrightarrow> set ts \<subseteq> dom (equity_hold_curves s) \<Longrightarrow>
     \<exists>r. valuation_loop row ts (s, v) = Inr r"
proof (induction ts arbitrary: s v)
  case Nil
  then show ?case by simp
next
  case (Cons t ts)
  from Cons.prems obtain n m cr ch where
    g: "shares_reb s t = Some n" "shares_hold s t = Some m"
       "equity_reb_curves s t = Some cr" "equity_hold_curves s t = Some ch"
    by auto
  let ?s1 = "s\<lparr>equity_reb_curves := (equity_reb_curves s)(t \<mapsto> cr @ [n * row t]),
               equity_hold_curves := (equity_hold_curves s)(t \<mapsto> ch @ [m * row t])\<rparr>"
  have "\<exists>r. valuation_loop row ts (?s1, w) = Inr r" for w
    using Cons.prems by (intro Cons.IH) auto
  with g show ?case
    by (simp add: getitem_def Let_def)
qed

lemma valuation_loop_same:
  "valuation_loop row ts (s, v) = Inr (s', v') \<Longrightarrow>
   shares_reb s = shares_hold s \<Longrightarrow> equity_reb_curves s = equity_hold_curves s \<Longrightarrow>
   values_reb v = values_hold v \<Longrightarrow> total_reb v = total_hold v \<Longrightarrow>
     equity_reb_curves s' = equity_hold_curves s' \<and> values_reb v' = values_hold v' \<and>
     total_reb v' = total_hold v'"
proof (induction ts arbitrary: s v)
  case Nil
  then show ?case by simp
next
  case (Cons t ts)
  from Cons.prems(1) obtain n m cr ch where
    g: "shares_reb s t = Some n" "shares_hold s t = Some m"
       "equity_reb_curves s t = Some cr" "equity_hold_curves s t = Some ch"
    by (auto simp: getitem_def Let_def split: option.splits sum.splits)
  with Cons.prems have eq: "m = n" "ch = cr" by auto
  let ?s1 = "s\<lparr>equity_reb_curves := (equity_reb_curves s)(t \<mapsto> cr @ [n * row t]),
               equity_hold_curves := (equity_hold_curves s)(t \<mapsto> ch @ [m * row t])\<rparr>"
  let ?v1 = "v\<lparr>values_reb := (values_reb v)(t \<mapsto> n * row t),
               values_hold := (values_hold v)(t \<mapsto> m * row t),
               total_reb := total_reb v + n * row t,
               total_hold := total_hold v + m * row t\<rparr>"
  from Cons.prems(1) g have rec: "valuation_loop row ts (?s1, ?v1) = Inr (s', v')"
    by (simp add: getitem_def Let_def)
  show ?case
    using Cons.prems(2-) eq by (intro Cons.IH [OF rec]) simp_all
qed

section \<open>One day\<close>

lemma rebalance_due_Inr:
  "rebalance_due i p = Inr b \<Longrightarrow> b = (0 < i \<and> int i mod p = 0) \<and> (0 < i \<longrightarrow> p \<noteq> 0)"
  by (auto simp: rebalance_due_def split: if_splits)

lemma rebalance_due_total:
  "p \<noteq> 0 \<Longrightarrow> rebalance_due i p = Inr (0 < i \<and> int i mod p = 0)"
  by (simp add: rebalance_due_def)

lemma day_step_elim:
  assumes "day_step ts tw p i d row s = Inr s'"
  obtains s1 v where
    "valuation_loop row ts
       (s, \<lparr>values_reb = Map.empty, values_hold = Map.empty, total_reb = 0, total_hold = 0\<rparr>)
       = Inr (s1, v)"
    "rebalance_due i p = Inr (0 < i \<and> int i mod p = 0)"
    "\<not> (0 < i \<and> int i mod p = 0) \<longrightarrow>
       s' = s1\<lparr>portfolio_reb_curve := portfolio_reb_curve s1 @ [total_reb v],
               portfolio_hold_curve := portfolio_hold_curve s1 @ [total_hold v]\<rparr>"
    "0 < i \<and> int i mod p = 0 \<longrightarrow>
       (\<exists>lr s3. reallocation_loop (total_reb v * tw) row (values_reb v) ts
                 (\<lparr>Date = d, Equity_Before = Map.empty, Drift = Map.empty, Transfer = Map.empty\<rparr>,
                  s1\<lparr>portfolio_reb_curve := portfolio_reb_curve s1 @ [total_reb v],
                     portfolio_hold_curve := portfolio_hold_curve s1 @ [total_hold v]\<rparr>)
                 = Inr (lr, s3)
          \<and> s' = s3\<lparr>rebalance_log := rebalance_log s3 @ [lr]\<rparr>)"
proof -
  from assms obtain s1 v where
    val: "valuation_loop row ts
       (s, \<lparr>values_reb = Map.empty, values_hold = Map.empty, total_reb = 0, total_hold = 0\<rparr>)
       = Inr (s1, v)"
    by (auto simp: day_step_def split: sum.splits)
  from assms val obtain b where due: "rebalance_due i p = Inr b"
    by (auto simp: day_step_def Let_def split: sum.splits)
  then have b: "b = (0 < i \<and> int i mod p = 0)"
    by (simp add: rebalance_due_Inr)
  have due': "rebalance_due i p = Inr (0 < i \<and> int i mod p = 0)"
    using due b by simp
  show thesis
  proof (rule that [OF val])
    show "rebalance_due i p = Inr (0 < i \<and> int i mod p = 0)"
      by (rule due')
    show "\<not> (0 < i \<and> int i mod p = 0) \<longrightarrow>
       s' = s1\<lparr>portfolio_reb_curve := portfolio_reb_curve s1 @ [total_reb v],
               portfolio_hold_curve := portfolio_hold_curve s1 @ [total_hold v]\<rparr>"
      using assms val due'
      by (cases "0 < i \<and> int i mod p = 0") (simp_all add: day_step_def Let_def)
    show "0 < i \<and> int i mod p = 0 \<longrightarrow>
       (\<exists>lr s3. reallocation_loop (total_reb v * tw) row (values_reb v) ts
                 (\<lparr>Date = d, Equity_Before = Map.empty, Drift = Map.empty, Transfer = Map.empty\<rparr>,
                  s1\<lparr>portfolio_reb_curve := portfolio_reb_curve s1 @ [total_reb v],
                     portfolio_hold_curve := portfolio_hold_curve s1 @ [total_hold v]\<rparr>)
                 = Inr (lr, s3)
          \<and> s' = s3\<lparr>rebalance_log := rebalance_log s3 @ [lr]\<rparr>)"
      using assms val due'
      by (cases "0 < i \<and> int i mod p = 0")
         (auto simp: day_step_def Let_def split: sum.splits)
  qed
qed

lemma day_step_Inr:
  assumes "day_step ts tw p i d row s = Inr s'"
  shows day_step_doms:
      "set ts \<subseteq> dom (shares_reb s) \<and> set ts \<subseteq> dom (shares_hold s) \<and>
       set ts \<subseteq> dom (equity_reb_curves s) \<and> set ts \<subseteq> dom (equity_hold_curves s)"
    and day_step_curve_doms:
      "dom (equity_reb_curves s') = dom (equity_reb_curves s) \<and>
       dom (equity_hold_curves s') = dom (equity_hold_curves s)"
    and day_step_portfolio_reb:
      "portfolio_reb_curve s' = portfolio_reb_curve s @ [holdings_value (shares_reb s) ts row]"
    and day_step_portfolio_hold:
      "portfolio_hold_curve s' = portfolio_hold_curve s @ [holdings_value (shares_hold s) ts row]"
    and day_step_shares_hold: "shares_hold s' = shares_hold s"
    and day_step_due: "rebalance_due i p = Inr (0 < i \<and> int i mod p = 0)"
    and day_step_quiet:
      "\<not> (0 < i \<and> int i mod p = 0) \<Longrightarrow>
         shares_reb s' = shares_reb s \<and> rebalance_log s' = rebalance_log s"
    and day_step_rebalance:
      "0 < i \<and> int i mod p = 0 \<Longrightarrow>
         \<exists>lr. rebalance_log s' = rebalance_log s @ [lr] \<and> Date lr = d \<and>
           (\<forall>t\<in>set ts. row t \<noteq> 0 \<and>
              Equity_Before lr t = Some (the (shares_reb s t) * row t) \<and>
              Drift lr t = Some (drift_pct_of (the (shares_reb s t) * row t)
                                   (holdings_value (shares_reb s) ts row * tw)) \<and>
              Transfer lr t = Some (holdings_value (shares_reb s) ts row * tw
                                     - the (shares_reb s t) * row t) \<and>
              shares_reb s' t = Some (holdings_value (shares_reb s) ts row * tw / row t)) \<and>
           (\<forall>t. t \<notin> set ts \<longrightarrow> shares_reb s' t = shares_reb s t)"
proof -
  from assms obtain s1 v where
    val: "valuation_loop row ts
       (s, \<lparr>values_reb = Map.empty, values_hold = Map.empty, total_reb = 0, total_hold = 0\<rparr>)
       = Inr (s1, v)"
    and due: "rebalance_due i p = Inr (0 < i \<and> int i mod p = 0)"
    and quiet: "\<not> (0 < i \<and> int i mod p = 0) \<longrightarrow>
       s' = s1\<lparr>portfolio_reb_curve := portfolio_reb_curve s1 @ [total_reb v],
               portfolio_hold_curve := portfolio_hold_curve s1 @ [total_hold v]\<rparr>"
    and reb: "0 < i \<and> int i mod p = 0 \<longrightarrow>
       (\<exists>lr s3. reallocation_loop (total_reb v * tw) row (values_reb v) ts
                 (\<lparr>Date = d, Equity_Before = Map.empty, Drift = Map.empty, Transfer = Map.empty\<rparr>,
                  s1\<lparr>portfolio_reb_curve := portfolio_reb_curve s1 @ [total_reb v],
                     portfolio_hold_curve := portfolio_hold_curve s1 @ [total_hold v]\<rparr>)
                 = Inr (lr, s3)
          \<and> s' = s3\<lparr>rebalance_log := rebalance_log s3 @ [lr]\<rparr>)"
    by (rule day_step_elim) (rule that)
  note V = valuation_loop_Inr [OF val]
  from V have vals: "\<forall>t\<in>set ts. \<exists>n m. shares_reb s t = Some n \<and> shares_hold s t = Some m
         \<and> values_reb v t = Some (n * row t) \<and> values_hold v t = Some (m * row t)"
    by blast
  from V have tot: "total_reb v = holdings_value (shares_reb s) ts row"
      "total_hold v = holdings_value (shares_hold s) ts row"
    by simp_all
  from V have s1: "s1 = s\<lparr>equity_reb_curves := equity_reb_curves s1,
                          equity_hold_curves := equity_hold_curves s1\<rparr>"
    by blast
  from V have doms: "dom (equity_reb_curves s1) = dom (equity_reb_curves s)"
      "dom (equity_hold_curves s1) = dom (equity_hold_curves s)"
    by blast+
  have s1f: "shares_reb s1 = shares_reb s" "shares_hold s1 = shares_hold s"
      "portfolio_reb_curve s1 = portfolio_reb_curve s"
      "portfolio_hold_curve s1 = portfolio_hold_curve s"
      "rebalance_log s1 = rebalance_log s"
    by (subst s1, simp)+
  show "set ts \<subseteq> dom (shares_reb s) \<and> set ts \<subseteq> dom (shares_hold s) \<and>
       set ts \<subseteq> dom (equity_reb_curves s) \<and> set ts \<subseteq> dom (equity_hold_curves s)"
    using V vals by (auto simp: dom_def)
  show "rebalance_due i p = Inr (0 < i \<and> int i mod p = 0)" by (rule due)
  let ?s2 = "s1\<lparr>portfolio_reb_curve := portfolio_reb_curve s1 @ [total_reb v],
                portfolio_hold_curve := portfolio_hold_curve s1 @ [total_hold v]\<rparr>"
  have frame: "dom (equity_reb_curves s') = dom (equity_reb_curves s) \<and>
       dom (equity_hold_curves s') = dom (equity_hold_curves s) \<and>
       portfolio_reb_curve s' = portfolio_reb_curve s @ [holdings_value (shares_reb s) ts row] \<and>
       portfolio_hold_curve s' = portfolio_hold_curve s @ [holdings_value (shares_hold s) ts row] \<and>
       shares_hold s' = shares_hold s"
  proof (cases "0 < i \<and> int i mod p = 0")
    case False
    from quiet False have "s' = ?s2" by blast
    then show ?thesis using doms s1f tot by simp
  next
    case True
    from reb True obtain lr s3 where
      re: "reallocation_loop (total_reb v * tw) row (values_reb v) ts
             (\<lparr>Date = d, Equity_Before = Map.empty, Drift = Map.empty, Transfer = Map.empty\<rparr>, ?s2)
             = Inr (lr, s3)"
      and s': "s' = s3\<lparr>rebalance_log := rebalance_log s3 @ [lr]\<rparr>"
      by blast
    from reallocation_loop_Inr [OF re] have "s3 = ?s2\<lparr>shares_reb := shares_reb s3\<rparr>"
      by blast
    then have "s' = ?s2\<lparr>shares_reb := shares_reb s3, rebalance_log := rebalance_log ?s2 @ [lr]\<rparr>"
      using s' by (metis sim_state.select_convs(7) sim_state.surjective sim_state.update_convs(1))
    then show ?thesis using doms s1f tot by simp
  qed
  then show "dom (equity_reb_curves s') = dom (equity_reb_curves s) \<and>
       dom (equity_hold_curves s') = dom (equity_hold_curves s)"
    and "portfolio_reb_curve s' = portfolio_reb_curve s @ [holdings_value (shares_reb s) ts row]"
    and "portfolio_hold_curve s' = portfolio_hold_curve s @ [holdings_value (shares_hold s) ts row]"
    and "shares_hold s' = shares_hold s"
    by blast+
  show "shares_reb s' = shares_reb s \<and> rebalance_log s' = rebalance_log s"
    if "\<not> (0 < i \<and> int i mod p = 0)"
    using quiet that s1f by simp
  show "\<exists>lr. rebalance_log s' = rebalance_log s @ [lr] \<and> Date lr = d \<and>
           (\<forall>t\<in>set ts. row t \<noteq> 0 \<and>
              Equity_Before lr t = Some (the (shares_reb s t) * row t) \<and>
              Drift lr t = Some (drift_pct_of (the (shares_reb s t) * row t)
                                   (holdings_value (shares_reb s) ts row * tw)) \<and>
              Transfer lr t = Some (holdings_value (shares_reb s) ts row * tw
                                     - the (shares_reb s t) * row t) \<and>
              shares_reb s' t = Some (holdings_value (shares_reb s) ts row * tw / row t)) \<and>
           (\<forall>t. t \<notin> set ts \<longrightarrow> shares_reb s' t = shares_reb s t)"
    if "0 < i \<and> int i mod p = 0"
  proof -
    from reb that obtain lr s3 where
      re: "reallocation_loop (total_reb v * tw) row (values_reb v) ts
             (\<lparr>Date = d, Equity_Before = Map.empty, Drift = Map.empty, Transfer = Map.empty\<rparr>, ?s2)
             = Inr (lr, s3)"
      and s': "s' = s3\<lparr>rebalance_log := rebalance_log s3 @ [lr]\<rparr>"
      by blast
    note R = reallocation_loop_Inr [OF re]
    from R have s3: "s3 = ?s2\<lparr>shares_reb := shares_reb s3\<rparr>" by blast
    have log3: "rebalance_log s3 = rebalance_log s"
      by (subst s3) (simp add: s1f)
    have sh: "shares_reb s' = shares_reb s3" using s' by simp
    have "rebalance_log s' = rebalance_log s @ [lr]" using s' log3 by simp
    moreover have "Date lr = d" using R by simp
    moreover have "\<forall>t\<in>set ts. row t \<noteq> 0 \<and>
              Equity_Before lr t = Some (the (shares_reb s t) * row t) \<and>
              Drift lr t = Some (drift_pct_of (the (shares_reb s t) * row t)
                                   (holdings_value (shares_reb s) ts row * tw)) \<and>
              Transfer lr t = Some (holdings_value (shares_reb s) ts row * tw
                                     - the (shares_reb s t) * row t) \<and>
              shares_reb s' t = Some (holdings_value (shares_reb s) ts row * tw / row t)"
    proof
      fix t assume t: "t \<in> set ts"
      with vals obtain n where n: "shares_reb s t = Some n" "values_reb v t = Some (n * row t)"
        by blast
      from R t obtain x where x: "values_reb v t = Some x" "row t \<noteq> 0"
         "Equity_Before lr t = Some x" "Drift lr t = Some (drift_pct_of x (total_reb v * tw))"
         "Transfer lr t = Some (total_reb v * tw - x)"
         "shares_reb s3 t = Some (total_reb v * tw / row t)"
        by blast
      with n have "x = n * row t" by simp
      with x n tot sh show "row t \<noteq> 0 \<and>
              Equity_Before lr t = Some (the (shares_reb s t) * row t) \<and>
              Drift lr t = Some (drift_pct_of (the (shares_reb s t) * row t)
                                   (holdings_value (shares_reb s) ts row * tw)) \<and>
              Transfer lr t = Some (holdings_value (shares_reb s) ts row * tw
                                     - the (shares_reb s t) * row t) \<and>
              shares_reb s' t = Some (holdings_value (shares_reb s) ts row * tw / row t)"
        by simp
    qed
    moreover have "\<forall>t. t \<notin> set ts \<longrightarrow> shares_reb s' t = shares_reb s t"
      using R sh s1f by simp
    ultimately show ?thesis by blast
  qed
qed

section \<open>The loop over the dates\<close>

lemma target_weight_of_Inr:
  "target_weight_of ts = Inr tw \<Longrightarrow> ts \<noteq> [] \<and> tw = 1 / real (length ts)"
  by (auto simp: target_weight_of_def Let_def split: if_splits)

lemma target_weight_of_total:
  "ts \<noteq> [] \<Longrightarrow> target_weight_of ts = Inr (1 / real (length ts))"
  by (simp add: target_weight_of_def Let_def)

lemma dom_map_of_empty_lists: "dom (map_of (map (\<lambda>t. (t, [])) ts)) = set ts"
  by (simp add: dom_map_of_conv_image_fst image_image)

lemma initial_state_Inr:
  assumes "initial_state ts eq prices = Inr s0"
  shows initial_state_nonempty: "ts \<noteq> [] \<and> prices \<noteq> []"
    and initial_state_shares:
      "\<forall>t\<in>set ts. snd (prices ! 0) t \<noteq> 0
         \<and> shares_reb s0 t = Some (eq * (1 / real (length ts)) / snd (prices ! 0) t)
         \<and> shares_hold s0 t = Some (eq * (1 / real (length ts)) / snd (prices ! 0) t)"
    and initial_state_others:
      "\<forall>t. t \<notin> set ts \<longrightarrow> shares_reb s0 t = None \<and> shares_hold s0 t = None"
    and initial_state_rest:
      "dom (equity_reb_curves s0) = set ts \<and> dom (equity_hold_curves s0) = set ts \<and>
       equity_reb_curves s0 = equity_hold_curves s0 \<and>
       portfolio_reb_curve s0 = [] \<and> portfolio_hold_curve s0 = [] \<and> rebalance_log s0 = []"
proof -
  from assms obtain tw where tw: "target_weight_of ts = Inr tw"
    and ia: "initial_allocation eq tw prices ts (empty_state ts) = Inr s0"
    by (auto simp: initial_state_def split: sum.splits)
  from target_weight_of_Inr [OF tw] have ne: "ts \<noteq> []" and twv: "tw = 1 / real (length ts)"
    by simp_all
  note I = initial_allocation_Inr [OF ia]
  show "ts \<noteq> [] \<and> prices \<noteq> []" using ne I by simp
  show "\<forall>t\<in>set ts. snd (prices ! 0) t \<noteq> 0
         \<and> shares_reb s0 t = Some (eq * (1 / real (length ts)) / snd (prices ! 0) t)
         \<and> shares_hold s0 t = Some (eq * (1 / real (length ts)) / snd (prices ! 0) t)"
    using I twv by simp
  show "\<forall>t. t \<notin> set ts \<longrightarrow> shares_reb s0 t = None \<and> shares_hold s0 t = None"
    using I by (simp add: empty_state_def)
  from I have s0: "s0 = (empty_state ts)\<lparr>shares_reb := shares_reb s0, shares_hold := shares_hold s0\<rparr>"
    by blast
  have "equity_reb_curves s0 = equity_reb_curves (empty_state ts)"
    "equity_hold_curves s0 = equity_hold_curves (empty_state ts)"
    "portfolio_reb_curve s0 = portfolio_reb_curve (empty_state ts)"
    "portfolio_hold_curve s0 = portfolio_hold_curve (empty_state ts)"
    "rebalance_log s0 = rebalance_log (empty_state ts)"
    by (subst s0, simp)+
  then show "dom (equity_reb_curves s0) = set ts \<and> dom (equity_hold_curves s0) = set ts \<and>
       equity_reb_curves s0 = equity_hold_curves s0 \<and>
       portfolio_reb_curve s0 = [] \<and> portfolio_hold_curve s0 = [] \<and> rebalance_log s0 = []"
    by (simp add: empty_state_def dom_map_of_empty_lists)
qed

lemma initial_state_same_shares:
  assumes "initial_state ts eq prices = Inr s0"
  shows "shares_reb s0 = shares_hold s0"
proof
  fix t
  show "shares_reb s0 t = shares_hold s0 t"
    using initial_state_shares [OF assms] initial_state_others [OF assms]
    by (cases "t \<in> set ts") auto
qed

lemma initial_state_total:
  "ts \<noteq> [] \<Longrightarrow> prices \<noteq> [] \<Longrightarrow> \<forall>t\<in>set ts. snd (prices ! 0) t \<noteq> 0 \<Longrightarrow>
     \<exists>s0. initial_state ts eq prices = Inr s0"
  using initial_allocation_total [of prices ts eq "1 / real (length ts)" "empty_state ts"]
  by (simp add: initial_state_def target_weight_of_total)

lemma day_loop_append:
  "day_loop ts tw p i (xs @ ys) s =
     (case day_loop ts tw p i xs s of
        Inl e \<Rightarrow> Inl e
      | Inr s1 \<Rightarrow> day_loop ts tw p (i + length xs) ys s1)"
proof (induction xs arbitrary: i s)
  case Nil
  then show ?case by simp
next
  case (Cons x xs)
  obtain d row where x: "x = (d, row)" by (cases x)
  show ?case
    by (simp add: x Cons.IH split: sum.splits)
qed

lemma day_loop_invariant:
  assumes "day_loop ts tw p i rows s = Inr s'"
    and "P i s"
    and "\<And>j d row a b. i \<le> j \<Longrightarrow> j < i + length rows \<Longrightarrow> rows ! (j - i) = (d, row) \<Longrightarrow>
           P j a \<Longrightarrow> day_step ts tw p j d row a = Inr b \<Longrightarrow> P (Suc j) b"
  shows "P (i + length rows) s'"
  using assms
proof (induction rows arbitrary: i s)
  case Nil
  then show ?case by simp
next
  case (Cons x rows)
  obtain d row where x: "x = (d, row)" by (cases x)
  from Cons.prems(1) x obtain s1 where
    st: "day_step ts tw p i d row s = Inr s1"
    and rest: "day_loop ts tw p (Suc i) rows s1 = Inr s'"
    by (auto split: sum.splits)
  have P1: "P (Suc i) s1"
    using Cons.prems(3) [of i d row s s1] Cons.prems(2) st x by simp
  have "P (Suc i + length rows) s'"
  proof (rule Cons.IH [OF rest P1])
    fix j d' row' a b
    assume j: "Suc i \<le> j" "j < Suc i + length rows" "rows ! (j - Suc i) = (d', row')"
      and a: "P j a" "day_step ts tw p j d' row' a = Inr b"
    from j have "(x # rows) ! (j - i) = (d', row')"
      by (simp add: Suc_diff_le nth_Cons')
    with j a show "P (Suc j) b"
      by (intro Cons.prems(3) [of j d' row' a b]) simp_all
  qed
  then show ?case by simp
qed

lemma simulate_Inr:
  assumes "simulate ts eq p prices = Inr s"
  obtains s0 where "ts \<noteq> []" "initial_state ts eq prices = Inr s0"
    "day_loop ts (1 / real (length ts)) p 0 prices s0 = Inr s"
proof -
  from assms obtain tw s0 where tw: "target_weight_of ts = Inr tw"
    and s0: "initial_state ts eq prices = Inr s0"
    and dl: "day_loop ts tw p 0 prices s0 = Inr s"
    by (auto simp: simulate_def split: sum.splits)
  from target_weight_of_Inr [OF tw] dl s0 show thesis
    by (intro that [of s0]) simp_all
qed

lemma state_after_Inr:
  assumes "state_after ts eq p prices i = Inr s"
  obtains s0 where "ts \<noteq> []" "initial_state ts eq prices = Inr s0"
    "day_loop ts (1 / real (length ts)) p 0 (take (Suc i) prices) s0 = Inr s"
proof -
  from assms obtain tw s0 where tw: "target_weight_of ts = Inr tw"
    and s0: "initial_state ts eq prices = Inr s0"
    and dl: "day_loop ts tw p 0 (take (Suc i) prices) s0 = Inr s"
    by (auto simp: state_after_def split: sum.splits)
  from target_weight_of_Inr [OF tw] dl s0 show thesis
    by (intro that [of s0]) simp_all
qed

lemma state_after_all:
  assumes "length prices \<le> Suc i"
  shows "state_after ts eq p prices i = simulate ts eq p prices"
proof -
  from assms have "take (Suc i) prices = prices" by (rule take_all)
  then show ?thesis by (simp only: state_after_def simulate_def)
qed

text \<open>The last iteration behind \<open>state_after\<close>.\<close>

lemma state_after_last_step:
  assumes "state_after ts eq p prices i = Inr s" and "i < length prices"
  obtains s1 where
    "ts \<noteq> []"
    "day_loop ts (1 / real (length ts)) p 0 (take i prices) (projr (initial_state ts eq prices)) = Inr s1"
    "day_step ts (1 / real (length ts)) p i (fst (prices ! i)) (snd (prices ! i)) s1 = Inr s"
proof -
  from assms(1) obtain s0 where ne: "ts \<noteq> []" and s0: "initial_state ts eq prices = Inr s0"
    and dl: "day_loop ts (1 / real (length ts)) p 0 (take (Suc i) prices) s0 = Inr s"
    by (rule state_after_Inr)
  from assms(2) have tk: "take (Suc i) prices = take i prices @ [prices ! i]"
    by (simp add: take_Suc_conv_app_nth)
  from assms(2) have len: "length (take i prices) = i" by simp
  from dl obtain s1 where
    a: "day_loop ts (1 / real (length ts)) p 0 (take i prices) s0 = Inr s1"
    and b: "day_loop ts (1 / real (length ts)) p i [prices ! i] s1 = Inr s"
    unfolding tk day_loop_append len by (auto split: sum.splits)
  from b have "day_step ts (1 / real (length ts)) p i (fst (prices ! i)) (snd (prices ! i)) s1 = Inr s"
    by (cases "prices ! i") (auto split: sum.splits)
  with ne a s0 show thesis
    by (intro that [of s1]) simp_all
qed

lemma state_after_pred:
  assumes "state_after ts eq p prices (Suc i) = Inr s" and "Suc i < length prices"
  obtains s1 where
    "state_after ts eq p prices i = Inr s1"
    "day_step ts (1 / real (length ts)) p (Suc i) (fst (prices ! Suc i)) (snd (prices ! Suc i)) s1 = Inr s"
proof -
  from assms obtain s1 where ne: "ts \<noteq> []"
    and a: "day_loop ts (1 / real (length ts)) p 0 (take (Suc i) prices)
              (projr (initial_state ts eq prices)) = Inr s1"
    and b: "day_step ts (1 / real (length ts)) p (Suc i) (fst (prices ! Suc i))
              (snd (prices ! Suc i)) s1 = Inr s"
    by (rule state_after_last_step)
  from assms(1) obtain s0 where s0: "initial_state ts eq prices = Inr s0"
    by (rule state_after_Inr)
  have "state_after ts eq p prices i = Inr s1"
    using a s0 ne by (simp add: state_after_def target_weight_of_total)
  from this b show thesis by (rule that)
qed

lemma Inr_projr: "\<not> isl x \<Longrightarrow> x = Inr (projr x)"
  by (cases x) simp_all

lemma day_loop_shares_hold:
  assumes "day_loop ts tw p i rows s = Inr s'"
  shows "shares_hold s' = shares_hold s"
proof -
  have "(\<lambda>j a. shares_hold a = shares_hold s) (i + length rows) s'"
    by (rule day_loop_invariant [OF assms]) (simp_all add: day_step_shares_hold)
  then show ?thesis .
qed

lemma day_loop_snoc:
  assumes "day_loop ts tw p i (rows @ [(d, row)]) s = Inr s'"
  obtains s1 where "day_loop ts tw p i rows s = Inr s1"
    "day_step ts tw p (i + length rows) d row s1 = Inr s'"
  using assms unfolding day_loop_append
  by (auto split: sum.splits)

lemma day_loop_dates:
  "day_loop ts tw p i rows s = Inr s' \<Longrightarrow>
     map Date (rebalance_log s') =
       map Date (rebalance_log s) @
       map (\<lambda>j. fst (rows ! j)) (filter (\<lambda>j. 0 < i + j \<and> int (i + j) mod p = 0) [0..<length rows])"
proof (induction rows arbitrary: s' rule: rev_induct)
  case Nil
  then show ?case by simp
next
  case (snoc x rows)
  obtain d row where x: "x = (d, row)" by (cases x)
  from snoc.prems obtain s1 where
    a: "day_loop ts tw p i rows s = Inr s1"
    and b: "day_step ts tw p (i + length rows) d row s1 = Inr s'"
    unfolding x by (rule day_loop_snoc)
  let ?P = "\<lambda>j. 0 < i + j \<and> int (i + j) mod p = 0"
  have old: "map (\<lambda>j. fst ((rows @ [x]) ! j)) (filter ?P [0..<length rows])
             = map (\<lambda>j. fst (rows ! j)) (filter ?P [0..<length rows])"
    by (rule map_cong) (auto simp: nth_append)
  show ?case
  proof (cases "?P (length rows)")
    case True
    from day_step_rebalance [OF b] True obtain lr where
      "rebalance_log s' = rebalance_log s1 @ [lr]" "Date lr = d"
      by blast
    with snoc.IH [OF a] True old show ?thesis
      by (simp add: x)
  next
    case False
    from day_step_quiet [OF b] False have "rebalance_log s' = rebalance_log s1"
      by blast
    with snoc.IH [OF a] False old show ?thesis
      by simp
  qed
qed

lemma simulate_prefix:
  assumes "simulate ts eq p prices = Inr s"
  shows "\<exists>a. state_after ts eq p prices i = Inr a"
proof -
  from assms obtain s0 where ne: "ts \<noteq> []" and s0: "initial_state ts eq prices = Inr s0"
    and dl: "day_loop ts (1 / real (length ts)) p 0 prices s0 = Inr s"
    by (rule simulate_Inr)
  have "day_loop ts (1 / real (length ts)) p 0 (take (Suc i) prices @ drop (Suc i) prices) s0 = Inr s"
    using dl by simp
  then obtain a where "day_loop ts (1 / real (length ts)) p 0 (take (Suc i) prices) s0 = Inr a"
    unfolding day_loop_append by (auto split: sum.splits)
  with ne s0 show ?thesis
    by (simp add: state_after_def target_weight_of_total)
qed

lemma simulate_first_day:
  assumes "simulate ts eq p prices = Inr s"
  obtains s0 a where "initial_state ts eq prices = Inr s0"
    "state_after ts eq p prices 0 = Inr a"
    "day_step ts (1 / real (length ts)) p 0 (fst (prices ! 0)) (snd (prices ! 0)) s0 = Inr a"
proof -
  from assms obtain s0 where s0: "initial_state ts eq prices = Inr s0"
    by (rule simulate_Inr)
  from initial_state_nonempty [OF s0] have len: "0 < length prices" by simp
  from simulate_prefix [OF assms] obtain a where a: "state_after ts eq p prices 0 = Inr a"
    by blast
  from a len obtain s1 where
    "day_loop ts (1 / real (length ts)) p 0 (take 0 prices) (projr (initial_state ts eq prices)) = Inr s1"
    "day_step ts (1 / real (length ts)) p 0 (fst (prices ! 0)) (snd (prices ! 0)) s1 = Inr a"
    by (rule state_after_last_step)
  with s0 have "day_step ts (1 / real (length ts)) p 0 (fst (prices ! 0)) (snd (prices ! 0)) s0 = Inr a"
    by simp
  with s0 a show thesis by (rule that)
qed

lemma simulate_next_day:
  assumes "simulate ts eq p prices = Inr s" and "Suc i < length prices"
  obtains a b where "state_after ts eq p prices i = Inr a"
    "state_after ts eq p prices (Suc i) = Inr b"
    "day_step ts (1 / real (length ts)) p (Suc i) (fst (prices ! Suc i)) (snd (prices ! Suc i)) a = Inr b"
proof -
  from simulate_prefix [OF assms(1)] obtain b where b: "state_after ts eq p prices (Suc i) = Inr b"
    by blast
  from b assms(2) obtain a where a: "state_after ts eq p prices i = Inr a"
    and st: "day_step ts (1 / real (length ts)) p (Suc i) (fst (prices ! Suc i))
               (snd (prices ! Suc i)) a = Inr b"
    by (rule state_after_pred)
  from a b st show thesis by (rule that)
qed

lemma simulate_last_day:
  assumes "simulate ts eq p prices = Inr s"
  shows "state_after ts eq p prices (length prices - 1) = Inr s"
  using assms state_after_all [of prices "length prices - 1" ts eq p] by simp

section \<open>Properties of the simulation\<close>

text \<open>
  C3. The share counts of the buy-and-hold tracker are written once, by the initial
  allocation: \<open>initial_equity / N / price\<close> at the first row for every ticker, and nothing
  for any other key. No later step writes them: at the end of every iteration of the loop
  over the dates, rebalancing days included, and at the end of the simulation, the mapping
  is the one the initial allocation left.
\<close>

theorem buy_and_hold_shares_fixed:
  assumes "initial_state ts eq prices = Inr s0"
  shows "(\<forall>t\<in>set ts. shares_hold s0 t = Some (eq / real (length ts) / snd (prices ! 0) t)) \<and>
         (\<forall>t. t \<notin> set ts \<longrightarrow> shares_hold s0 t = None) \<and>
         (\<forall>i s. state_after ts eq p prices i = Inr s \<longrightarrow> shares_hold s = shares_hold s0) \<and>
         (\<forall>s. simulate ts eq p prices = Inr s \<longrightarrow> shares_hold s = shares_hold s0)"
proof (intro conjI allI impI ballI)
  fix t assume "t \<in> set ts"
  with initial_state_shares [OF assms]
  show "shares_hold s0 t = Some (eq / real (length ts) / snd (prices ! 0) t)"
    by simp
next
  fix t assume "t \<notin> set ts"
  with initial_state_others [OF assms] show "shares_hold s0 t = None" by simp
next
  fix i s assume "state_after ts eq p prices i = Inr s"
  then obtain s0' where "initial_state ts eq prices = Inr s0'"
    "day_loop ts (1 / real (length ts)) p 0 (take (Suc i) prices) s0' = Inr s"
    by (rule state_after_Inr)
  with assms show "shares_hold s = shares_hold s0"
    by (simp add: day_loop_shares_hold)
next
  fix s assume "simulate ts eq p prices = Inr s"
  then obtain s0' where "initial_state ts eq prices = Inr s0'"
    "day_loop ts (1 / real (length ts)) p 0 prices s0' = Inr s"
    by (rule simulate_Inr)
  with assms show "shares_hold s = shares_hold s0"
    by (simp add: day_loop_shares_hold)
qed

theorem buy_and_hold_shares_fixed_witness:
  "\<not> isl (initial_state [''A'', ''B''] 1000000 scenario_prices) \<and>
   \<not> isl (state_after [''A'', ''B''] 1000000 2 scenario_prices 2) \<and>
   shares_hold (projr (initial_state [''A'', ''B''] 1000000 scenario_prices)) ''A'' = Some 5000 \<and>
   shares_hold (projr (initial_state [''A'', ''B''] 1000000 scenario_prices)) ''B'' = Some 2500 \<and>
   shares_hold (projr (state_after [''A'', ''B''] 1000000 2 scenario_prices 2))
     = shares_hold (projr (initial_state [''A'', ''B''] 1000000 scenario_prices)) \<and>
   shares_reb (projr (state_after [''A'', ''B''] 1000000 2 scenario_prices 2)) ''A''
     = Some (528125 / 121)"
proof -
  have i: "\<not> isl (initial_state [''A'', ''B''] 1000000 scenario_prices)"
    by code_simp
  have a: "\<not> isl (state_after [''A'', ''B''] 1000000 2 scenario_prices 2)"
    by code_simp
  have r: "shares_reb (projr (state_after [''A'', ''B''] 1000000 2 scenario_prices 2)) ''A''
     = Some (528125 / 121)"
    by code_simp
  have p0: "snd (scenario_prices ! 0) ''A'' = 100" "snd (scenario_prices ! 0) ''B'' = 200"
    by (simp_all add: scenario_prices_def)
  note T = buy_and_hold_shares_fixed [OF Inr_projr [OF i], of 2]
  from T have "shares_hold (projr (initial_state [''A'', ''B''] 1000000 scenario_prices)) ''A'' = Some 5000"
    "shares_hold (projr (initial_state [''A'', ''B''] 1000000 scenario_prices)) ''B'' = Some 2500"
    by (simp_all add: p0)
  moreover from T Inr_projr [OF a]
  have "shares_hold (projr (state_after [''A'', ''B''] 1000000 2 scenario_prices 2))
     = shares_hold (projr (initial_state [''A'', ''B''] 1000000 scenario_prices))"
    by blast
  ultimately show ?thesis using i a r by blast
qed

text \<open>
  C5. A rebalancing takes place at index \<open>i\<close> exactly when \<open>i > 0\<close> and
  \<open>i mod rebalance_period = 0\<close>. In a simulation that completes, iteration 0 leaves the
  rebalanced share counts as the initial allocation set them and the log empty. Every later
  iteration \<open>i + 1\<close> on which the test holds appends one row to the log, dated by row
  \<open>i + 1\<close>, and sets every share count to \<open>total / N / price\<close>, with the total and the prices
  of that row; every later iteration on which it does not hold leaves the rebalanced share
  counts and the log as they were. So the dates of the final log are the dates of the rows
  at those indices, in ascending order of index, and nothing else. The test never holds at
  index 0; for a positive period it holds at the index equal to the period and at no smaller
  index.
\<close>

theorem rebalance_dates:
  assumes "simulate ts eq p prices = Inr s"
  shows "map Date (rebalance_log s) =
           map (\<lambda>i. fst (prices ! i)) (filter (\<lambda>i. 0 < i \<and> int i mod p = 0) [0..<length prices]) \<and>
         rebalance_due 0 p = Inr False \<and>
         (0 < p \<longrightarrow> rebalance_due (nat p) p = Inr True \<and>
                    (\<forall>i. i < nat p \<longrightarrow> rebalance_due i p = Inr False)) \<and>
         (\<exists>s0 a. initial_state ts eq prices = Inr s0 \<and> state_after ts eq p prices 0 = Inr a \<and>
                 shares_reb a = shares_reb s0 \<and> rebalance_log a = []) \<and>
         (\<forall>i. Suc i < length prices \<longrightarrow>
            (\<exists>a b. state_after ts eq p prices i = Inr a \<and>
                   state_after ts eq p prices (Suc i) = Inr b \<and>
               (if int (Suc i) mod p = 0
                then (\<exists>ev. rebalance_log b = rebalance_log a @ [ev] \<and>
                           Date ev = fst (prices ! Suc i)) \<and>
                     (\<forall>t\<in>set ts. shares_reb b t =
                        Some (holdings_value (shares_reb a) ts (snd (prices ! Suc i))
                                / real (length ts) / snd (prices ! Suc i) t))
                else shares_reb b = shares_reb a \<and> rebalance_log b = rebalance_log a))) \<and>
         state_after ts eq p prices (length prices - 1) = Inr s"
proof (intro conjI impI allI)
  from assms obtain s0 where s0: "initial_state ts eq prices = Inr s0"
    and dl: "day_loop ts (1 / real (length ts)) p 0 prices s0 = Inr s"
    by (rule simulate_Inr)
  from initial_state_rest [OF s0] have "rebalance_log s0 = []" by simp
  with day_loop_dates [OF dl]
  show "map Date (rebalance_log s) =
           map (\<lambda>i. fst (prices ! i)) (filter (\<lambda>i. 0 < i \<and> int i mod p = 0) [0..<length prices])"
    by simp
next
  show "rebalance_due 0 p = Inr False" by (simp add: rebalance_due_def)
next
  assume "0 < p"
  then show "rebalance_due (nat p) p = Inr True" by (simp add: rebalance_due_def)
next
  fix i assume "0 < p" "i < nat p"
  then show "rebalance_due i p = Inr False"
    by (auto simp: rebalance_due_def zmod_trivial_iff)
next
  from assms obtain s0 a where s0: "initial_state ts eq prices = Inr s0"
    and a: "state_after ts eq p prices 0 = Inr a"
    and st: "day_step ts (1 / real (length ts)) p 0 (fst (prices ! 0)) (snd (prices ! 0)) s0 = Inr a"
    by (rule simulate_first_day)
  from day_step_quiet [OF st] initial_state_rest [OF s0]
  have "shares_reb a = shares_reb s0 \<and> rebalance_log a = []" by simp
  with s0 a show "\<exists>s0 a. initial_state ts eq prices = Inr s0 \<and>
      state_after ts eq p prices 0 = Inr a \<and> shares_reb a = shares_reb s0 \<and> rebalance_log a = []"
    by blast
next
  fix i assume i: "Suc i < length prices"
  from assms i obtain a b where a: "state_after ts eq p prices i = Inr a"
    and b: "state_after ts eq p prices (Suc i) = Inr b"
    and st: "day_step ts (1 / real (length ts)) p (Suc i) (fst (prices ! Suc i))
               (snd (prices ! Suc i)) a = Inr b"
    by (rule simulate_next_day)
  have "if int (Suc i) mod p = 0
        then (\<exists>ev. rebalance_log b = rebalance_log a @ [ev] \<and> Date ev = fst (prices ! Suc i)) \<and>
             (\<forall>t\<in>set ts. shares_reb b t =
                Some (holdings_value (shares_reb a) ts (snd (prices ! Suc i))
                        / real (length ts) / snd (prices ! Suc i) t))
        else shares_reb b = shares_reb a \<and> rebalance_log b = rebalance_log a"
  proof (cases "int (Suc i) mod p = 0")
    case True
    from day_step_rebalance [OF st] True obtain ev where
      "rebalance_log b = rebalance_log a @ [ev]" "Date ev = fst (prices ! Suc i)"
      "\<forall>t\<in>set ts. shares_reb b t =
         Some (holdings_value (shares_reb a) ts (snd (prices ! Suc i)) * (1 / real (length ts))
                 / snd (prices ! Suc i) t)"
      by auto
    with True show ?thesis by auto
  next
    case False
    with day_step_quiet [OF st] show ?thesis by simp
  qed
  with a b show "\<exists>a b. state_after ts eq p prices i = Inr a \<and>
                   state_after ts eq p prices (Suc i) = Inr b \<and>
               (if int (Suc i) mod p = 0
                then (\<exists>ev. rebalance_log b = rebalance_log a @ [ev] \<and>
                           Date ev = fst (prices ! Suc i)) \<and>
                     (\<forall>t\<in>set ts. shares_reb b t =
                        Some (holdings_value (shares_reb a) ts (snd (prices ! Suc i))
                                / real (length ts) / snd (prices ! Suc i) t))
                else shares_reb b = shares_reb a \<and> rebalance_log b = rebalance_log a)"
    by blast
next
  show "state_after ts eq p prices (length prices - 1) = Inr s"
    by (rule simulate_last_day [OF assms])
qed

theorem rebalance_dates_witness:
  "\<not> isl (simulate [''A'', ''B''] 1000000 2 scenario_prices) \<and>
   map Date (rebalance_log (projr (simulate [''A'', ''B''] 1000000 2 scenario_prices)))
     = [''2024-01-03''] \<and>
   rebalance_due 1 2 = Inr False \<and> rebalance_due 2 2 = Inr True \<and>
   shares_reb (projr (state_after [''A'', ''B''] 1000000 2 scenario_prices 1))
     = shares_reb (projr (state_after [''A'', ''B''] 1000000 2 scenario_prices 0)) \<and>
   shares_reb (projr (state_after [''A'', ''B''] 1000000 2 scenario_prices 0)) ''A'' = Some 5000 \<and>
   shares_reb (projr (state_after [''A'', ''B''] 1000000 2 scenario_prices 2)) ''A''
     = Some (528125 / 121) \<and>
   state_after [''A'', ''B''] 1000000 2 scenario_prices 2
     = simulate [''A'', ''B''] 1000000 2 scenario_prices"
proof -
  let ?r = "simulate [''A'', ''B''] 1000000 2 scenario_prices"
  have a: "\<not> isl ?r"
    by code_simp
  have f: "filter (\<lambda>i. 0 < i \<and> int i mod 2 = 0) [0..<length scenario_prices] = [2]"
    by (simp add: scenario_prices_def upt_rec)
  have l: "Suc 0 < length scenario_prices" "length scenario_prices - 1 = 2"
    by (simp_all add: scenario_prices_def)
  have d: "fst (scenario_prices ! 2) = ''2024-01-03''"
    by (simp add: scenario_prices_def)
  have v: "shares_reb (projr (state_after [''A'', ''B''] 1000000 2 scenario_prices 0)) ''A'' = Some 5000"
    "shares_reb (projr (state_after [''A'', ''B''] 1000000 2 scenario_prices 2)) ''A''
       = Some (528125 / 121)"
    by code_simp+
  note T = rebalance_dates [OF Inr_projr [OF a]]
  from T have dates: "map Date (rebalance_log (projr ?r)) = [''2024-01-03'']"
    by (simp add: f d)
  from T have due: "rebalance_due 1 2 = Inr False" "rebalance_due 2 2 = Inr True"
    by simp_all
  from T l have "\<exists>a b. state_after [''A'', ''B''] 1000000 2 scenario_prices 0 = Inr a \<and>
      state_after [''A'', ''B''] 1000000 2 scenario_prices (Suc 0) = Inr b \<and>
      shares_reb b = shares_reb a"
    by fastforce
  then have same: "shares_reb (projr (state_after [''A'', ''B''] 1000000 2 scenario_prices 1))
     = shares_reb (projr (state_after [''A'', ''B''] 1000000 2 scenario_prices 0))"
    by auto
  from T l Inr_projr [OF a] have last: "state_after [''A'', ''B''] 1000000 2 scenario_prices 2 = ?r"
    by simp
  from a dates due same v last show ?thesis
    by blast
qed

lemma day_step_same:
  assumes "day_step ts tw p i d row a = Inr b"
    and "\<not> (0 < i \<and> int i mod p = 0)"
    and "shares_reb a = shares_hold a" and "equity_reb_curves a = equity_hold_curves a"
    and "portfolio_reb_curve a = portfolio_hold_curve a"
  shows "shares_reb b = shares_hold b \<and> equity_reb_curves b = equity_hold_curves b \<and>
         portfolio_reb_curve b = portfolio_hold_curve b \<and> rebalance_log b = rebalance_log a"
proof -
  from assms(1) obtain s1 v where
    val: "valuation_loop row ts
       (a, \<lparr>values_reb = Map.empty, values_hold = Map.empty, total_reb = 0, total_hold = 0\<rparr>)
       = Inr (s1, v)"
    and quiet: "\<not> (0 < i \<and> int i mod p = 0) \<longrightarrow>
       b = s1\<lparr>portfolio_reb_curve := portfolio_reb_curve s1 @ [total_reb v],
               portfolio_hold_curve := portfolio_hold_curve s1 @ [total_hold v]\<rparr>"
    by (rule day_step_elim)
  from valuation_loop_same [OF val] assms(3,4)
  have curves: "equity_reb_curves s1 = equity_hold_curves s1"
    by simp
  from quiet assms(2) have "equity_reb_curves b = equity_reb_curves s1"
    "equity_hold_curves b = equity_hold_curves s1"
    by simp_all
  with curves have "equity_reb_curves b = equity_hold_curves b" by simp
  moreover have "shares_reb b = shares_hold b"
    using day_step_quiet [OF assms(1)] day_step_shares_hold [OF assms(1)] assms(2,3) by simp
  moreover have "portfolio_reb_curve b = portfolio_hold_curve b"
    using day_step_portfolio_reb [OF assms(1)] day_step_portfolio_hold [OF assms(1)] assms(3,5)
    by simp
  moreover have "rebalance_log b = rebalance_log a"
    using day_step_quiet [OF assms(1)] assms(2) by simp
  ultimately show ?thesis by simp
qed

lemma day_loop_same:
  assumes "day_loop ts tw p 0 rows s = Inr s'"
    and "p > int (length rows) - 1"
    and "shares_reb s = shares_hold s" and "equity_reb_curves s = equity_hold_curves s"
    and "portfolio_reb_curve s = portfolio_hold_curve s" and "rebalance_log s = []"
  shows "equity_reb_curves s' = equity_hold_curves s' \<and>
         portfolio_reb_curve s' = portfolio_hold_curve s' \<and> rebalance_log s' = []"
proof -
  let ?P = "\<lambda>(j::nat) a. shares_reb a = shares_hold a \<and> equity_reb_curves a = equity_hold_curves a \<and>
         portfolio_reb_curve a = portfolio_hold_curve a \<and> rebalance_log a = []"
  have "?P (0 + length rows) s'"
  proof (rule day_loop_invariant [OF assms(1)])
    show "?P 0 s" using assms(3-6) by simp
  next
    fix j d row a b
    assume j: "j < 0 + length rows" and a: "?P j a"
      and st: "day_step ts tw p j d row a = Inr b"
    from j assms(2) have "int j < p" by simp
    then have "\<not> (0 < j \<and> int j mod p = 0)"
      by (auto simp: zmod_trivial_iff)
    from day_step_same [OF st this] a show "?P (Suc j) b" by simp
  qed
  then show ?thesis by simp
qed

text \<open>
  C4. When the rebalancing period is greater than the number of rows minus one, a simulation
  that completes has an empty rebalancing log, and its rebalanced curves are the buy-and-hold
  curves: the same list of values for every ticker and the same list of portfolio totals,
  hence the same value at every date index.
\<close>

theorem no_rebalance_curves_equal:
  assumes "simulate ts eq p prices = Inr s" and "p > int (length prices) - 1"
  shows "rebalance_log s = [] \<and> equity_reb_curves s = equity_hold_curves s \<and>
         portfolio_reb_curve s = portfolio_hold_curve s"
proof -
  from assms(1) obtain s0 where s0: "initial_state ts eq prices = Inr s0"
    and dl: "day_loop ts (1 / real (length ts)) p 0 prices s0 = Inr s"
    by (rule simulate_Inr)
  from day_loop_same [OF dl assms(2) initial_state_same_shares [OF s0]] initial_state_rest [OF s0]
  show ?thesis by simp
qed

theorem no_rebalance_curves_equal_witness:
  "\<not> isl (simulate [''A'', ''B''] 1000000 3 scenario_prices) \<and>
   (3 :: int) > int (length scenario_prices) - 1 \<and>
   rebalance_log (projr (simulate [''A'', ''B''] 1000000 3 scenario_prices)) = [] \<and>
   equity_reb_curves (projr (simulate [''A'', ''B''] 1000000 3 scenario_prices))
     = equity_hold_curves (projr (simulate [''A'', ''B''] 1000000 3 scenario_prices)) \<and>
   portfolio_reb_curve (projr (simulate [''A'', ''B''] 1000000 3 scenario_prices))
     = portfolio_hold_curve (projr (simulate [''A'', ''B''] 1000000 3 scenario_prices)) \<and>
   portfolio_hold_curve (projr (simulate [''A'', ''B''] 1000000 3 scenario_prices))
     = [1000000, 1025000, 1056250]"
proof -
  have a: "\<not> isl (simulate [''A'', ''B''] 1000000 3 scenario_prices)"
    by code_simp
  have l: "(3 :: int) > int (length scenario_prices) - 1"
    by (simp add: scenario_prices_def)
  have c: "portfolio_hold_curve (projr (simulate [''A'', ''B''] 1000000 3 scenario_prices))
     = [1000000, 1025000, 1056250]"
    by code_simp
  from no_rebalance_curves_equal [OF Inr_projr [OF a] l] a l c show ?thesis
    by blast
qed

lemma sum_list_target_minus:
  assumes "ts \<noteq> []"
  shows "(\<Sum>t\<leftarrow>ts. (\<Sum>u\<leftarrow>ts. f u) / real (length ts) - f t) = (0 :: real)"
proof -
  have "(\<Sum>t\<leftarrow>ts. (\<Sum>u\<leftarrow>ts. f u) / real (length ts) - f t)
        = (\<Sum>t\<leftarrow>ts. (\<Sum>u\<leftarrow>ts. f u) / real (length ts)) - (\<Sum>t\<leftarrow>ts. f t)"
    by (rule sum_list_subtractf)
  also have "(\<Sum>t\<leftarrow>ts. (\<Sum>u\<leftarrow>ts. f u) / real (length ts)) = (\<Sum>u\<leftarrow>ts. f u)"
    using assms by (simp add: sum_list_triv)
  finally show ?thesis by simp
qed

lemma day_step_balanced:
  assumes "day_step ts (1 / real (length ts)) p i d row a = Inr b"
    and "\<forall>ev\<in>set (rebalance_log a). event_balanced ts ev"
  shows "\<forall>ev\<in>set (rebalance_log b). event_balanced ts ev"
proof (cases "0 < i \<and> int i mod p = 0")
  case False
  with day_step_quiet [OF assms(1)] assms(2) show ?thesis by simp
next
  case True
  let ?H = "holdings_value (shares_reb a) ts row"
  from day_step_rebalance [OF assms(1) True] obtain lr where
    log: "rebalance_log b = rebalance_log a @ [lr]"
    and lr: "\<forall>t\<in>set ts.
              Equity_Before lr t = Some (the (shares_reb a t) * row t) \<and>
              Transfer lr t = Some (?H * (1 / real (length ts)) - the (shares_reb a t) * row t)"
    by blast
  have "(\<Sum>u\<leftarrow>ts. the (Equity_Before lr u)) = (\<Sum>u\<leftarrow>ts. the (shares_reb a u) * row u)"
    using lr by (intro arg_cong [where f = sum_list] map_cong) simp_all
  then have H: "(\<Sum>u\<leftarrow>ts. the (Equity_Before lr u)) = ?H"
    by (simp add: holdings_value_def)
  have "event_balanced ts lr"
    unfolding event_balanced_def H using lr by simp
  with log assms(2) show ?thesis by simp
qed

text \<open>
  C1. In every row of the rebalancing log of a completed simulation, the transfer of each
  ticker is the target value minus the ticker's value before rebalancing, where the target
  is the sum of the values before rebalancing divided by the number of tickers; and the
  transfers of the row, summed over the tickers, are 0.
\<close>

theorem transfers_sum_to_zero:
  assumes "simulate ts eq p prices = Inr s" and "ev \<in> set (rebalance_log s)"
  shows "(\<forall>t\<in>set ts. \<exists>v. Equity_Before ev t = Some v \<and>
            Transfer ev t = Some ((\<Sum>u\<leftarrow>ts. the (Equity_Before ev u)) / real (length ts) - v)) \<and>
         (\<Sum>t\<leftarrow>ts. the (Transfer ev t)) = 0"
proof -
  from assms(1) obtain s0 where ne: "ts \<noteq> []" and s0: "initial_state ts eq prices = Inr s0"
    and dl: "day_loop ts (1 / real (length ts)) p 0 prices s0 = Inr s"
    by (rule simulate_Inr)
  have "(\<lambda>(j::nat) a. \<forall>ev\<in>set (rebalance_log a). event_balanced ts ev) (0 + length prices) s"
  proof (rule day_loop_invariant [OF dl])
    show "\<forall>ev\<in>set (rebalance_log s0). event_balanced ts ev"
      using initial_state_rest [OF s0] by simp
  qed (rule day_step_balanced)
  with assms(2) have bal: "event_balanced ts ev" by simp
  then have tr: "\<forall>t\<in>set ts. \<exists>v. Equity_Before ev t = Some v \<and>
            Transfer ev t = Some ((\<Sum>u\<leftarrow>ts. the (Equity_Before ev u)) / real (length ts) - v)"
    by (simp add: event_balanced_def)
  have "(\<Sum>t\<leftarrow>ts. the (Transfer ev t))
        = (\<Sum>t\<leftarrow>ts. (\<Sum>u\<leftarrow>ts. the (Equity_Before ev u)) / real (length ts) - the (Equity_Before ev t))"
    using tr by (intro arg_cong [where f = sum_list] map_cong) auto
  also have "\<dots> = 0" using ne by (rule sum_list_target_minus)
  finally show ?thesis using tr by simp
qed

theorem transfers_sum_to_zero_witness:
  "\<not> isl (simulate [''A'', ''B''] 1000000 2 scenario_prices) \<and>
   length (rebalance_log (projr (simulate [''A'', ''B''] 1000000 2 scenario_prices))) = 1 \<and>
   Transfer (hd (rebalance_log (projr (simulate [''A'', ''B''] 1000000 2 scenario_prices)))) ''A''
     = Some (- 76875) \<and>
   Transfer (hd (rebalance_log (projr (simulate [''A'', ''B''] 1000000 2 scenario_prices)))) ''B''
     = Some 76875 \<and>
   (\<Sum>t\<leftarrow>[''A'', ''B''].
      the (Transfer (hd (rebalance_log (projr (simulate [''A'', ''B''] 1000000 2 scenario_prices)))) t))
     = 0"
proof -
  let ?s = "projr (simulate [''A'', ''B''] 1000000 2 scenario_prices)"
  have a: "\<not> isl (simulate [''A'', ''B''] 1000000 2 scenario_prices)"
    by code_simp
  have n: "length (rebalance_log ?s) = 1"
    by code_simp
  then have m: "hd (rebalance_log ?s) \<in> set (rebalance_log ?s)"
    by (cases "rebalance_log ?s") simp_all
  have ta: "Transfer (hd (rebalance_log ?s)) ''A'' = Some (- 76875)"
    by code_simp
  have tb: "Transfer (hd (rebalance_log ?s)) ''B'' = Some 76875"
    by code_simp
  from transfers_sum_to_zero [OF Inr_projr [OF a] m] a n ta tb show ?thesis
    by blast
qed

lemma day_loop_portfolio_length:
  assumes "day_loop ts tw p i rows s = Inr s'"
  shows "length (portfolio_reb_curve s') = length (portfolio_reb_curve s) + length rows"
proof -
  have "(\<lambda>j a. length (portfolio_reb_curve a) = length (portfolio_reb_curve s) + (j - i))
          (i + length rows) s'"
  proof (rule day_loop_invariant [OF assms])
    fix j d row a b
    assume "i \<le> j" "length (portfolio_reb_curve a) = length (portfolio_reb_curve s) + (j - i)"
      "day_step ts tw p j d row a = Inr b"
    then show "length (portfolio_reb_curve b) = length (portfolio_reb_curve s) + (Suc j - i)"
      by (simp add: day_step_portfolio_reb Suc_diff_le)
  qed simp
  then show ?thesis by simp
qed

text \<open>
  C2. At the end of an iteration \<open>i\<close> of the loop over the dates on which the test of line
  132 holds, the new share count of every ticker, times the price of the ticker on row \<open>i\<close>,
  is \<open>total / N\<close>: \<open>total\<close> is the portfolio value of the rebalanced tracker that the
  iteration appended to its curve, at position \<open>i\<close>, and \<open>N\<close> the number of tickers.
\<close>

theorem equal_weight_after_rebalance:
  assumes "state_after ts eq p prices i = Inr s" and "i < length prices"
    and "0 < i" and "int i mod p = 0" and "t \<in> set ts"
  shows "length (portfolio_reb_curve s) = Suc i \<and>
         (\<exists>n. shares_reb s t = Some n \<and>
              n * snd (prices ! i) t = portfolio_reb_curve s ! i / real (length ts))"
proof -
  from assms(1,2) obtain s1 where ne: "ts \<noteq> []"
    and pre: "day_loop ts (1 / real (length ts)) p 0 (take i prices)
                (projr (initial_state ts eq prices)) = Inr s1"
    and st: "day_step ts (1 / real (length ts)) p i (fst (prices ! i)) (snd (prices ! i)) s1 = Inr s"
    by (rule state_after_last_step)
  from assms(1) obtain s0 where s0: "initial_state ts eq prices = Inr s0"
    by (rule state_after_Inr)
  let ?row = "snd (prices ! i)"
  let ?H = "holdings_value (shares_reb s1) ts ?row"
  from day_loop_portfolio_length [OF pre] initial_state_rest [OF s0] s0 assms(2)
  have len1: "length (portfolio_reb_curve s1) = i" by simp
  from day_step_portfolio_reb [OF st]
  have curve: "portfolio_reb_curve s = portfolio_reb_curve s1 @ [?H]" .
  with len1 have len: "length (portfolio_reb_curve s) = Suc i"
    and tot: "portfolio_reb_curve s ! i = ?H"
    by (simp_all add: nth_append)
  from day_step_rebalance [OF st] assms(3,4,5)
  have "?row t \<noteq> 0" and "shares_reb s t = Some (?H * (1 / real (length ts)) / ?row t)"
    by blast+
  then have "shares_reb s t = Some (?H * (1 / real (length ts)) / ?row t) \<and>
      ?H * (1 / real (length ts)) / ?row t * ?row t = portfolio_reb_curve s ! i / real (length ts)"
    using tot by simp
  with len show ?thesis by blast
qed

theorem equal_weight_after_rebalance_witness:
  "\<not> isl (state_after [''A'', ''B''] 1000000 2 scenario_prices 2) \<and>
   2 < length scenario_prices \<and> (0 :: nat) < 2 \<and> int 2 mod 2 = 0 \<and> ''A'' \<in> set [''A'', ''B''] \<and>
   portfolio_reb_curve (projr (state_after [''A'', ''B''] 1000000 2 scenario_prices 2)) ! 2 = 1056250 \<and>
   (\<exists>n. shares_reb (projr (state_after [''A'', ''B''] 1000000 2 scenario_prices 2)) ''A'' = Some n \<and>
        n * 121 = 1056250 / 2)"
proof -
  have a: "\<not> isl (state_after [''A'', ''B''] 1000000 2 scenario_prices 2)"
    by code_simp
  have l: "2 < length scenario_prices" and r: "snd (scenario_prices ! 2) ''A'' = 121"
    by (simp_all add: scenario_prices_def)
  have c: "portfolio_reb_curve (projr (state_after [''A'', ''B''] 1000000 2 scenario_prices 2)) ! 2
           = 1056250"
    by code_simp
  from equal_weight_after_rebalance [OF Inr_projr [OF a] l, of "''A''"] l r c a show ?thesis
    by simp
qed

text \<open>
  C10. Rebalancing depends on the index alone. When iteration \<open>i + 1\<close> completes and
  \<open>(i + 1) mod rebalance_period = 0\<close>, it appends exactly one row to the log, dated by row
  \<open>i + 1\<close>, and replaces every share count by target over price, whatever the drift. When
  every ticker is already worth the target, with the share counts iteration \<open>i\<close> left, the
  row is appended all the same and its transfers are all 0.
\<close>

theorem rebalance_is_unconditional:
  assumes "state_after ts eq p prices (Suc i) = Inr s'" and "Suc i < length prices"
    and "int (Suc i) mod p = 0"
  shows "\<exists>s ev. state_after ts eq p prices i = Inr s \<and>
           rebalance_log s' = rebalance_log s @ [ev] \<and> Date ev = fst (prices ! Suc i) \<and>
           (\<forall>t\<in>set ts.
              Equity_Before ev t = Some (the (shares_reb s t) * snd (prices ! Suc i) t) \<and>
              Transfer ev t =
                Some (holdings_value (shares_reb s) ts (snd (prices ! Suc i)) / real (length ts)
                      - the (shares_reb s t) * snd (prices ! Suc i) t) \<and>
              shares_reb s' t =
                Some (holdings_value (shares_reb s) ts (snd (prices ! Suc i)) / real (length ts)
                      / snd (prices ! Suc i) t)) \<and>
           ((\<forall>t\<in>set ts. the (shares_reb s t) * snd (prices ! Suc i) t
                = holdings_value (shares_reb s) ts (snd (prices ! Suc i)) / real (length ts))
            \<longrightarrow> (\<forall>t\<in>set ts. Transfer ev t = Some 0))"
proof -
  from assms(1,2) obtain s where pre: "state_after ts eq p prices i = Inr s"
    and st: "day_step ts (1 / real (length ts)) p (Suc i) (fst (prices ! Suc i))
               (snd (prices ! Suc i)) s = Inr s'"
    by (rule state_after_pred)
  from day_step_rebalance [OF st] assms(3) obtain ev where
    log: "rebalance_log s' = rebalance_log s @ [ev]" and d: "Date ev = fst (prices ! Suc i)"
    and ev: "\<forall>t\<in>set ts.
              Equity_Before ev t = Some (the (shares_reb s t) * snd (prices ! Suc i) t) \<and>
              Transfer ev t =
                Some (holdings_value (shares_reb s) ts (snd (prices ! Suc i)) * (1 / real (length ts))
                      - the (shares_reb s t) * snd (prices ! Suc i) t) \<and>
              shares_reb s' t =
                Some (holdings_value (shares_reb s) ts (snd (prices ! Suc i)) * (1 / real (length ts))
                      / snd (prices ! Suc i) t)"
    by auto
  from ev have ev': "\<forall>t\<in>set ts.
              Equity_Before ev t = Some (the (shares_reb s t) * snd (prices ! Suc i) t) \<and>
              Transfer ev t =
                Some (holdings_value (shares_reb s) ts (snd (prices ! Suc i)) / real (length ts)
                      - the (shares_reb s t) * snd (prices ! Suc i) t) \<and>
              shares_reb s' t =
                Some (holdings_value (shares_reb s) ts (snd (prices ! Suc i)) / real (length ts)
                      / snd (prices ! Suc i) t)"
    by simp
  then have "(\<forall>t\<in>set ts. the (shares_reb s t) * snd (prices ! Suc i) t
                = holdings_value (shares_reb s) ts (snd (prices ! Suc i)) / real (length ts))
            \<longrightarrow> (\<forall>t\<in>set ts. Transfer ev t = Some 0)"
    by simp
  with pre log d ev' show ?thesis by blast
qed

theorem rebalance_is_unconditional_witness:
  "\<not> isl (state_after [''A'', ''B''] 1000000 1 flat_prices (Suc 0)) \<and>
   Suc 0 < length flat_prices \<and> int (Suc 0) mod 1 = 0 \<and>
   (\<exists>ev. rebalance_log (projr (state_after [''A'', ''B''] 1000000 1 flat_prices (Suc 0)))
            = rebalance_log (projr (state_after [''A'', ''B''] 1000000 1 flat_prices 0)) @ [ev] \<and>
         Date ev = ''2024-01-02'' \<and> Transfer ev ''A'' = Some 0 \<and> Transfer ev ''B'' = Some 0) \<and>
   rebalance_log (projr (state_after [''A'', ''B''] 1000000 1 flat_prices 0)) = [] \<and>
   the (shares_reb (projr (state_after [''A'', ''B''] 1000000 1 flat_prices 0)) ''A'') * 100 = 500000 \<and>
   the (shares_reb (projr (state_after [''A'', ''B''] 1000000 1 flat_prices 0)) ''B'') * 200 = 500000"
proof -
  let ?s = "projr (state_after [''A'', ''B''] 1000000 1 flat_prices 0)"
  have a: "\<not> isl (state_after [''A'', ''B''] 1000000 1 flat_prices (Suc 0))"
    by code_simp
  have b: "\<not> isl (state_after [''A'', ''B''] 1000000 1 flat_prices 0)"
    by code_simp
  have l: "Suc 0 < length flat_prices" and m: "int (Suc 0) mod 1 = 0"
    and r: "snd (flat_prices ! Suc 0) = (\<lambda>t. 0)(''A'' := 100, ''B'' := 200)"
    and d: "fst (flat_prices ! Suc 0) = ''2024-01-02''"
    by (simp_all add: flat_prices_def)
  have e: "rebalance_log ?s = []"
    by code_simp
  have sa: "the (shares_reb ?s ''A'') * 100 = 500000"
    and sb: "the (shares_reb ?s ''B'') * 200 = 500000"
    by code_simp+
  have h: "holdings_value (shares_reb ?s) [''A'', ''B''] ((\<lambda>t. 0)(''A'' := 100, ''B'' := 200))
             / real (length [''A'', ''B'']) = 500000"
    using sa sb by (simp add: holdings_value_def)
  from rebalance_is_unconditional [OF Inr_projr [OF a] l m] obtain s ev where
    s: "state_after [''A'', ''B''] 1000000 1 flat_prices 0 = Inr s"
    and log: "rebalance_log (projr (state_after [''A'', ''B''] 1000000 1 flat_prices (Suc 0)))
                = rebalance_log s @ [ev]"
    and dt: "Date ev = fst (flat_prices ! Suc 0)"
    and zero: "(\<forall>t\<in>set [''A'', ''B'']. the (shares_reb s t) * snd (flat_prices ! Suc 0) t
                = holdings_value (shares_reb s) [''A'', ''B''] (snd (flat_prices ! Suc 0))
                    / real (length [''A'', ''B'']))
            \<longrightarrow> (\<forall>t\<in>set [''A'', ''B'']. Transfer ev t = Some 0)"
    by blast
  from s have s': "s = ?s" by simp
  from zero have "Transfer ev ''A'' = Some 0 \<and> Transfer ev ''B'' = Some 0"
    unfolding s' r h using sa sb by simp
  with log dt d s' have "\<exists>ev. rebalance_log (projr (state_after [''A'', ''B''] 1000000 1 flat_prices (Suc 0)))
            = rebalance_log ?s @ [ev] \<and>
         Date ev = ''2024-01-02'' \<and> Transfer ev ''A'' = Some 0 \<and> Transfer ev ''B'' = Some 0"
    by auto
  with a l m e sa sb show ?thesis by blast
qed

subsection \<open>Positive prices: the simulation completes\<close>

lemma holdings_value_pos:
  "ts \<noteq> [] \<Longrightarrow> \<forall>t\<in>set ts. 0 < the (sh t) * row t \<Longrightarrow> 0 < holdings_value sh ts row"
proof (induction ts)
  case Nil
  then show ?case by simp
next
  case (Cons t ts)
  show ?case
  proof (cases "ts = []")
    case True
    with Cons.prems show ?thesis by (simp add: holdings_value_def)
  next
    case False
    with Cons have "0 < holdings_value sh ts row" by simp
    moreover from Cons.prems have "0 < the (sh t) * row t" by simp
    ultimately show ?thesis by (simp add: holdings_value_def)
  qed
qed

lemma holdings_value_pos_shares:
  assumes "ts \<noteq> []" and "set ts \<subseteq> dom sh" and "\<forall>t x. sh t = Some x \<longrightarrow> 0 < x"
    and "\<forall>t\<in>set ts. 0 < row t"
  shows "0 < holdings_value sh ts row"
proof (rule holdings_value_pos [OF assms(1)])
  show "\<forall>t\<in>set ts. 0 < the (sh t) * row t"
  proof
    fix t assume t: "t \<in> set ts"
    with assms(2) obtain x where "sh t = Some x" by auto
    with assms(3,4) t show "0 < the (sh t) * row t" by simp
  qed
qed

lemma day_step_positive:
  assumes "day_step ts tw p i d row a = Inr b" and "0 < tw" and "\<forall>t\<in>set ts. 0 < row t"
    and "\<forall>t x. shares_reb a t = Some x \<longrightarrow> 0 < x"
  shows "\<forall>t x. shares_reb b t = Some x \<longrightarrow> 0 < x"
proof (cases "0 < i \<and> int i mod p = 0")
  case False
  with day_step_quiet [OF assms(1)] assms(4) show ?thesis by simp
next
  case True
  let ?H = "holdings_value (shares_reb a) ts row"
  from day_step_rebalance [OF assms(1) True] have
    new: "\<forall>t\<in>set ts. shares_reb b t = Some (?H * tw / row t)"
    and old: "\<forall>t. t \<notin> set ts \<longrightarrow> shares_reb b t = shares_reb a t"
    by auto
  show ?thesis
  proof (intro allI impI)
    fix t x assume x: "shares_reb b t = Some x"
    show "0 < x"
    proof (cases "t \<in> set ts")
      case False
      with old x assms(4) show ?thesis by simp
    next
      case True
      then have "ts \<noteq> []" by auto
      from holdings_value_pos_shares [OF this _ assms(4,3)] day_step_doms [OF assms(1)]
      have "0 < ?H" by simp
      with True new x assms(2,3) show ?thesis by auto
    qed
  qed
qed

lemma day_step_shares_dom:
  assumes "day_step ts tw p i d row a = Inr b"
  shows "set ts \<subseteq> dom (shares_reb b)"
proof (cases "0 < i \<and> int i mod p = 0")
  case False
  with day_step_quiet [OF assms] day_step_doms [OF assms] show ?thesis by simp
next
  case True
  from day_step_rebalance [OF assms True] show ?thesis by auto
qed

lemma day_step_total:
  assumes "set ts \<subseteq> dom (shares_reb a)" and "set ts \<subseteq> dom (shares_hold a)"
    and "set ts \<subseteq> dom (equity_reb_curves a)" and "set ts \<subseteq> dom (equity_hold_curves a)"
    and "p \<noteq> 0" and "\<forall>t\<in>set ts. row t \<noteq> 0"
  shows "\<exists>b. day_step ts tw p i d row a = Inr b"
proof -
  let ?v0 = "\<lparr>values_reb = Map.empty, values_hold = Map.empty, total_reb = 0, total_hold = 0\<rparr>"
  from valuation_loop_total [OF assms(1-4)] obtain s1 v where
    val: "valuation_loop row ts (a, ?v0) = Inr (s1, v)"
    by (metis surj_pair)
  note V = valuation_loop_Inr [OF val]
  have due: "rebalance_due i p = Inr (0 < i \<and> int i mod p = 0)"
    using assms(5) by (rule rebalance_due_total)
  show ?thesis
  proof (cases "0 < i \<and> int i mod p = 0")
    case False
    with val due show ?thesis by (simp add: day_step_def Let_def)
  next
    case True
    have "\<forall>t\<in>set ts. row t \<noteq> 0 \<and> values_reb v t \<noteq> None"
    proof
      fix t assume t: "t \<in> set ts"
      with V obtain n where "values_reb v t = Some (n * row t)" by blast
      with t assms(6) show "row t \<noteq> 0 \<and> values_reb v t \<noteq> None" by auto
    qed
    from reallocation_loop_total [OF this] obtain lr s3 where
      "reallocation_loop (total_reb v * tw) row (values_reb v) ts
         (\<lparr>Date = d, Equity_Before = Map.empty, Drift = Map.empty, Transfer = Map.empty\<rparr>,
          s1\<lparr>portfolio_reb_curve := portfolio_reb_curve s1 @ [total_reb v],
             portfolio_hold_curve := portfolio_hold_curve s1 @ [total_hold v]\<rparr>) = Inr (lr, s3)"
      by (metis surj_pair)
    with val due True show ?thesis by (simp add: day_step_def Let_def)
  qed
qed

lemma day_loop_total:
  assumes "p \<noteq> 0"
  shows "\<forall>(d, row)\<in>set rows. \<forall>t\<in>set ts. row t \<noteq> 0 \<Longrightarrow>
    set ts \<subseteq> dom (shares_reb a) \<Longrightarrow> set ts \<subseteq> dom (shares_hold a) \<Longrightarrow>
    set ts \<subseteq> dom (equity_reb_curves a) \<Longrightarrow> set ts \<subseteq> dom (equity_hold_curves a) \<Longrightarrow>
    \<exists>s. day_loop ts tw p i rows a = Inr s"
proof (induction rows arbitrary: i a)
  case Nil
  then show ?case by simp
next
  case (Cons x rows)
  obtain d row where x: "x = (d, row)" by (cases x)
  with Cons.prems(1) have row: "\<forall>t\<in>set ts. row t \<noteq> 0"
    and rest: "\<forall>(d, row)\<in>set rows. \<forall>t\<in>set ts. row t \<noteq> 0"
    by simp_all
  from day_step_total [OF Cons.prems(2-5) assms row]
  obtain b where b: "day_step ts tw p i d row a = Inr b" by blast
  have "\<exists>s. day_loop ts tw p (Suc i) rows b = Inr s"
  proof (rule Cons.IH [OF rest])
    show "set ts \<subseteq> dom (shares_reb b)" by (rule day_step_shares_dom [OF b])
    show "set ts \<subseteq> dom (shares_hold b)"
      using day_step_shares_hold [OF b] Cons.prems(3) by simp
    show "set ts \<subseteq> dom (equity_reb_curves b)" "set ts \<subseteq> dom (equity_hold_curves b)"
      using day_step_curve_doms [OF b] Cons.prems(4,5) by simp_all
  qed
  with b x show ?case by simp
qed

lemma simulate_total_nonzero:
  assumes "ts \<noteq> []" and "prices \<noteq> []" and "p \<noteq> 0"
    and "\<forall>(d, row)\<in>set prices. \<forall>t\<in>set ts. row t \<noteq> 0"
  shows "\<exists>s. simulate ts eq p prices = Inr s"
proof -
  from assms(2) have "prices ! 0 \<in> set prices" by simp
  with assms(4) have "\<forall>t\<in>set ts. snd (prices ! 0) t \<noteq> 0"
    by (fastforce simp: case_prod_unfold)
  from initial_state_total [OF assms(1,2) this] obtain s0 where
    s0: "initial_state ts eq prices = Inr s0" by blast
  have doms: "set ts \<subseteq> dom (shares_reb s0)" "set ts \<subseteq> dom (shares_hold s0)"
    using initial_state_shares [OF s0] by auto
  have cdoms: "set ts \<subseteq> dom (equity_reb_curves s0)" "set ts \<subseteq> dom (equity_hold_curves s0)"
    using initial_state_rest [OF s0] by simp_all
  from day_loop_total [OF assms(3,4) doms cdoms]
  obtain s where "day_loop ts (1 / real (length ts)) p 0 prices s0 = Inr s" by blast
  with s0 assms(1) show ?thesis
    by (simp add: simulate_def target_weight_of_total)
qed

lemma day_loop_positive:
  assumes "day_loop ts tw p i rows s = Inr s'" and "0 < tw"
    and "\<forall>(d, row)\<in>set rows. \<forall>t\<in>set ts. 0 < row t"
    and "\<forall>t x. shares_reb s t = Some x \<longrightarrow> 0 < x"
  shows "\<forall>t x. shares_reb s' t = Some x \<longrightarrow> 0 < x"
proof -
  have "(\<lambda>(j::nat) a. \<forall>t x. shares_reb a t = Some x \<longrightarrow> 0 < x) (i + length rows) s'"
  proof (rule day_loop_invariant [OF assms(1)])
    show "\<forall>t x. shares_reb s t = Some x \<longrightarrow> 0 < x" by (rule assms(4))
  next
    fix j d row a b
    assume j: "i \<le> j" "j < i + length rows" and r: "rows ! (j - i) = (d, row)"
      and a: "\<forall>t x. shares_reb a t = Some x \<longrightarrow> 0 < x"
      and st: "day_step ts tw p j d row a = Inr b"
    from j have "rows ! (j - i) \<in> set rows" by (intro nth_mem) arith
    with r assms(3) have "\<forall>t\<in>set ts. 0 < row t" by auto
    from day_step_positive [OF st assms(2) this a]
    show "\<forall>t x. shares_reb b t = Some x \<longrightarrow> 0 < x" .
  qed
  then show ?thesis .
qed

lemma initial_state_positive:
  assumes "initial_state ts eq prices = Inr s0" and "0 < eq"
    and "\<forall>(d, row)\<in>set prices. \<forall>t\<in>set ts. 0 < row t"
  shows "\<forall>t x. shares_reb s0 t = Some x \<longrightarrow> 0 < x"
    and "\<forall>t x. shares_hold s0 t = Some x \<longrightarrow> 0 < x"
proof -
  from initial_state_nonempty [OF assms(1)] have ne: "ts \<noteq> []" "prices \<noteq> []" by simp_all
  then have "prices ! 0 \<in> set prices" by simp
  with assms(3) have pos: "\<forall>t\<in>set ts. 0 < snd (prices ! 0) t" by (auto simp: case_prod_unfold)
  have q: "0 < eq * (1 / real (length ts)) / snd (prices ! 0) t" if "t \<in> set ts" for t
    using that pos assms(2) ne by simp
  show "\<forall>t x. shares_reb s0 t = Some x \<longrightarrow> 0 < x"
  proof (intro allI impI)
    fix t x assume "shares_reb s0 t = Some x"
    with initial_state_shares [OF assms(1)] initial_state_others [OF assms(1)] q [of t]
    show "0 < x" by (cases "t \<in> set ts") auto
  qed
  show "\<forall>t x. shares_hold s0 t = Some x \<longrightarrow> 0 < x"
  proof (intro allI impI)
    fix t x assume "shares_hold s0 t = Some x"
    with initial_state_shares [OF assms(1)] initial_state_others [OF assms(1)] q [of t]
    show "0 < x" by (cases "t \<in> set ts") auto
  qed
qed

lemma simulate_total:
  assumes "ts \<noteq> []" and "prices \<noteq> []" and "p \<noteq> 0"
    and "\<forall>(d, row)\<in>set prices. \<forall>t\<in>set ts. 0 < row t"
  shows "\<exists>s. simulate ts eq p prices = Inr s"
proof (rule simulate_total_nonzero [OF assms(1-3)])
  show "\<forall>(d, row)\<in>set prices. \<forall>t\<in>set ts. row t \<noteq> 0"
    using assms(4) by fastforce
qed

text \<open>
  C9. With a positive initial equity and a positive price for every ticker on every row,
  every share count that either tracker holds is non-negative: in the state the initial
  allocation leaves, and at the end of every iteration of the loop over the dates, hence
  after every rebalancing. Under these hypotheses the simulation does complete, as soon as
  there is a ticker, a row, and a period other than 0.
\<close>

theorem share_counts_nonnegative:
  assumes "0 < eq" and "\<forall>(d, row)\<in>set prices. \<forall>t\<in>set ts. 0 < row t"
  shows "(\<forall>s0 t x. initial_state ts eq prices = Inr s0 \<longrightarrow>
            shares_reb s0 t = Some x \<or> shares_hold s0 t = Some x \<longrightarrow> 0 \<le> x) \<and>
         (\<forall>i s t x. state_after ts eq p prices i = Inr s \<longrightarrow>
            shares_reb s t = Some x \<or> shares_hold s t = Some x \<longrightarrow> 0 \<le> x) \<and>
         (ts \<noteq> [] \<and> prices \<noteq> [] \<and> p \<noteq> 0 \<longrightarrow> (\<exists>s. simulate ts eq p prices = Inr s))"
proof (intro conjI allI impI)
  fix s0 t x
  assume s0: "initial_state ts eq prices = Inr s0"
    and x: "shares_reb s0 t = Some x \<or> shares_hold s0 t = Some x"
  from initial_state_positive [OF s0 assms] x have "0 < x" by blast
  then show "0 \<le> x" by simp
next
  fix i s t x
  assume s: "state_after ts eq p prices i = Inr s"
    and x: "shares_reb s t = Some x \<or> shares_hold s t = Some x"
  from s obtain s0 where ne: "ts \<noteq> []" and s0: "initial_state ts eq prices = Inr s0"
    and dl: "day_loop ts (1 / real (length ts)) p 0 (take (Suc i) prices) s0 = Inr s"
    by (rule state_after_Inr)
  have rows: "\<forall>(d, row)\<in>set (take (Suc i) prices). \<forall>t\<in>set ts. 0 < row t"
    using assms(2) by (meson in_set_takeD)
  have tw: "0 < 1 / real (length ts)" using ne by simp
  note pos0 = initial_state_positive [OF s0 assms]
  from day_loop_positive [OF dl tw rows pos0(1)]
  have reb: "\<forall>t x. shares_reb s t = Some x \<longrightarrow> 0 < x" .
  from day_loop_shares_hold [OF dl] pos0(2)
  have hold: "\<forall>t x. shares_hold s t = Some x \<longrightarrow> 0 < x" by simp
  from x reb hold have "0 < x" by blast
  then show "0 \<le> x" by simp
next
  assume "ts \<noteq> [] \<and> prices \<noteq> [] \<and> p \<noteq> 0"
  with assms show "\<exists>s. simulate ts eq p prices = Inr s"
    by (intro simulate_total) simp_all
qed

theorem share_counts_nonnegative_witness:
  "(0 :: real) < 1000000 \<and>
   \<not> isl (state_after [''A'', ''B''] 1000000 2 scenario_prices 2) \<and>
   shares_reb (projr (state_after [''A'', ''B''] 1000000 2 scenario_prices 2)) ''B''
     = Some (1056250 / 361) \<and>
   (0 :: real) \<le> 1056250 / 361 \<and>
   (\<exists>s. simulate [''A'', ''B''] 1000000 2 scenario_prices = Inr s)"
proof -
  have e: "(0 :: real) < 1000000" by simp
  have pr: "\<forall>(d, row)\<in>set scenario_prices. \<forall>t\<in>set [''A'', ''B'']. 0 < row t"
    by (simp add: scenario_prices_def)
  have a: "\<not> isl (state_after [''A'', ''B''] 1000000 2 scenario_prices 2)"
    by code_simp
  have b: "shares_reb (projr (state_after [''A'', ''B''] 1000000 2 scenario_prices 2)) ''B''
     = Some (1056250 / 361)"
    by code_simp
  have ne: "scenario_prices \<noteq> []" by (simp add: scenario_prices_def)
  note T = share_counts_nonnegative [OF e pr, of 2]
  from T Inr_projr [OF a] b have "(0 :: real) \<le> 1056250 / 361" by blast
  moreover from T ne have "\<exists>s. simulate [''A'', ''B''] 1000000 2 scenario_prices = Inr s"
    by simp
  ultimately show ?thesis using a b by simp
qed

section \<open>The scenario of the specification\<close>

text \<open>
  C6, as stated, does not hold. On the scenario (tickers \<open>A\<close> and \<open>B\<close>, initial equity
  1,000,000, the prices of \<open>scenario_prices\<close>) the initial allocation gives \<open>A\<close> 5000
  shares, not 2500: line 107 divides 500000 by 100. The portfolio value at index 1 is
  then 1,025,000, not 750,000.
\<close>

theorem scenario_initial_shares_counterexample:
  "\<not> isl (initial_state [''A'', ''B''] 1000000 scenario_prices) \<and>
   shares_reb (projr (initial_state [''A'', ''B''] 1000000 scenario_prices)) ''A'' = Some 5000 \<and>
   shares_reb (projr (initial_state [''A'', ''B''] 1000000 scenario_prices)) ''A'' \<noteq> Some 2500 \<and>
   portfolio_reb_curve (projr (state_after [''A'', ''B''] 1000000 2 scenario_prices 1)) ! 1 = 1025000 \<and>
   portfolio_reb_curve (projr (state_after [''A'', ''B''] 1000000 2 scenario_prices 1)) ! 1 \<noteq> 750000"
proof -
  have "\<not> isl (initial_state [''A'', ''B''] 1000000 scenario_prices)"
    by code_simp
  moreover have a: "shares_reb (projr (initial_state [''A'', ''B''] 1000000 scenario_prices)) ''A''
      = Some 5000"
    by code_simp
  moreover have b: "portfolio_reb_curve (projr (state_after [''A'', ''B''] 1000000 2 scenario_prices 1)) ! 1
      = 1025000"
    by code_simp
  ultimately show ?thesis by simp
qed

text \<open>
  C6, amended. On the scenario with rebalancing period 2 the simulation completes with:
  initial shares \<open>A\<close> = 5000 and \<open>B\<close> = 2500 in both trackers; at index 1 the values
  \<open>A\<close> = 550000, \<open>B\<close> = 475000, total 1025000 and no rebalancing; at index 2 the values
  \<open>A\<close> = 605000, \<open>B\<close> = 451250, total 1056250, and one rebalancing, dated by the third row,
  with target 528125 for each asset, transfer \<open>528125 - 605000 = -76875\<close> for \<open>A\<close> and
  \<open>528125 - 451250 = 76875\<close> for \<open>B\<close>, drift \<open>2460 / 169\<close> for \<open>A\<close> (between 14.55 and
  14.56 per cent), and the new shares \<open>528125 / 121\<close> for \<open>A\<close> (between 4364.66 and
  4364.67) and \<open>528125 / 180.5\<close> for \<open>B\<close> (between 2925.90 and 2925.91).
\<close>

theorem scenario_values:
  "\<not> isl (initial_state [''A'', ''B''] 1000000 scenario_prices) \<and>
   shares_reb (projr (initial_state [''A'', ''B''] 1000000 scenario_prices)) ''A'' = Some 5000 \<and>
   shares_reb (projr (initial_state [''A'', ''B''] 1000000 scenario_prices)) ''B'' = Some 2500 \<and>
   shares_hold (projr (initial_state [''A'', ''B''] 1000000 scenario_prices)) ''A'' = Some 5000 \<and>
   shares_hold (projr (initial_state [''A'', ''B''] 1000000 scenario_prices)) ''B'' = Some 2500 \<and>
   \<not> isl (state_after [''A'', ''B''] 1000000 2 scenario_prices 1) \<and>
   rebalance_log (projr (state_after [''A'', ''B''] 1000000 2 scenario_prices 1)) = [] \<and>
   \<not> isl (simulate [''A'', ''B''] 1000000 2 scenario_prices) \<and>
   equity_reb_curves (projr (simulate [''A'', ''B''] 1000000 2 scenario_prices)) ''A''
     = Some [500000, 550000, 605000] \<and>
   equity_reb_curves (projr (simulate [''A'', ''B''] 1000000 2 scenario_prices)) ''B''
     = Some [500000, 475000, 451250] \<and>
   portfolio_reb_curve (projr (simulate [''A'', ''B''] 1000000 2 scenario_prices))
     = [1000000, 1025000, 1056250] \<and>
   map Date (rebalance_log (projr (simulate [''A'', ''B''] 1000000 2 scenario_prices)))
     = [''2024-01-03''] \<and>
   Equity_Before (hd (rebalance_log (projr (simulate [''A'', ''B''] 1000000 2 scenario_prices)))) ''A''
     = Some 605000 \<and>
   Equity_Before (hd (rebalance_log (projr (simulate [''A'', ''B''] 1000000 2 scenario_prices)))) ''B''
     = Some 451250 \<and>
   Transfer (hd (rebalance_log (projr (simulate [''A'', ''B''] 1000000 2 scenario_prices)))) ''A''
     = Some (528125 - 605000) \<and>
   Transfer (hd (rebalance_log (projr (simulate [''A'', ''B''] 1000000 2 scenario_prices)))) ''B''
     = Some (528125 - 451250) \<and>
   Drift (hd (rebalance_log (projr (simulate [''A'', ''B''] 1000000 2 scenario_prices)))) ''A''
     = Some (Finite (2460 / 169)) \<and>
   (1455 / 100 :: real) < 2460 / 169 \<and> (2460 / 169 :: real) < 1456 / 100 \<and>
   shares_reb (projr (simulate [''A'', ''B''] 1000000 2 scenario_prices)) ''A''
     = Some (528125 / 121) \<and>
   shares_reb (projr (simulate [''A'', ''B''] 1000000 2 scenario_prices)) ''B''
     = Some (528125 / (361 / 2)) \<and>
   (436466 / 100 :: real) < 528125 / 121 \<and> (528125 / 121 :: real) < 436467 / 100 \<and>
   (292590 / 100 :: real) < 528125 / (361 / 2) \<and> (528125 / (361 / 2) :: real) < 292591 / 100"
proof -
  let ?i = "initial_state [''A'', ''B''] 1000000 scenario_prices"
  let ?m = "state_after [''A'', ''B''] 1000000 2 scenario_prices 1"
  let ?r = "simulate [''A'', ''B''] 1000000 2 scenario_prices"
  have i: "\<not> isl ?i" "shares_reb (projr ?i) ''A'' = Some 5000"
    "shares_reb (projr ?i) ''B'' = Some 2500" "shares_hold (projr ?i) ''A'' = Some 5000"
    "shares_hold (projr ?i) ''B'' = Some 2500"
    by code_simp+
  have m: "\<not> isl ?m" "rebalance_log (projr ?m) = []"
    by code_simp+
  have c: "\<not> isl ?r" "equity_reb_curves (projr ?r) ''A'' = Some [500000, 550000, 605000]"
    "equity_reb_curves (projr ?r) ''B'' = Some [500000, 475000, 451250]"
    "portfolio_reb_curve (projr ?r) = [1000000, 1025000, 1056250]"
    by code_simp+
  have l: "map Date (rebalance_log (projr ?r)) = [''2024-01-03'']"
    "Equity_Before (hd (rebalance_log (projr ?r))) ''A'' = Some 605000"
    "Equity_Before (hd (rebalance_log (projr ?r))) ''B'' = Some 451250"
    "Transfer (hd (rebalance_log (projr ?r))) ''A'' = Some (528125 - 605000)"
    "Transfer (hd (rebalance_log (projr ?r))) ''B'' = Some (528125 - 451250)"
    "Drift (hd (rebalance_log (projr ?r))) ''A'' = Some (Finite (2460 / 169))"
    by code_simp+
  have s: "shares_reb (projr ?r) ''A'' = Some (528125 / 121)"
    "shares_reb (projr ?r) ''B'' = Some (528125 / (361 / 2))"
    by code_simp+
  have n: "(1455 / 100 :: real) < 2460 / 169" "(2460 / 169 :: real) < 1456 / 100"
    "(436466 / 100 :: real) < 528125 / 121" "(528125 / 121 :: real) < 436467 / 100"
    "(292590 / 100 :: real) < 528125 / (361 / 2)" "(528125 / (361 / 2) :: real) < 292591 / 100"
    by simp_all
  show ?thesis
    by (intro conjI i m c l s n)
qed

section \<open>Prices that are not positive\<close>





section \<open>Properties of the run\<close>

text \<open>
  C8. When the number of tickers is not between 2 and 5 (1 or 6, say), the run is refused at
  once: the only effect is the warning of line 40, no ticker is downloaded, no step of the
  simulation is taken, and the run stops with no equity curve and no log. The script has
  no exception class of its own: the refusal is \<^verbatim>\<open>st.warning\<close> followed by \<^verbatim>\<open>st.stop()\<close>.
\<close>

theorem asset_count_rejected:
  "\<not> (2 \<le> length tickers \<and> length tickers \<le> 5) \<Longrightarrow>
     run download is_empty table tickers initial_equity rebalance_period
       = ([St_warning ''Please input between 2 and 5 tickers.''], Stopped)"
  by (simp add: run_def)

theorem asset_count_rejected_witness:
  "\<not> (2 \<le> length [''BBCA.JK''] \<and> length [''BBCA.JK''] \<le> 5) \<and>
   run (\<lambda>t. [1 :: real]) (\<lambda>df. df = []) (\<lambda>cols labels. []) [''BBCA.JK''] 100000000 20
     = ([St_warning ''Please input between 2 and 5 tickers.''], Stopped) \<and>
   \<not> (2 \<le> length [''A.JK'', ''B.JK'', ''C.JK'', ''D.JK'', ''E.JK'', ''F.JK'']
        \<and> length [''A.JK'', ''B.JK'', ''C.JK'', ''D.JK'', ''E.JK'', ''F.JK''] \<le> 5) \<and>
   run (\<lambda>t. [1 :: real]) (\<lambda>df. df = []) (\<lambda>cols labels. [])
       [''A.JK'', ''B.JK'', ''C.JK'', ''D.JK'', ''E.JK'', ''F.JK''] 100000000 20
     = ([St_warning ''Please input between 2 and 5 tickers.''], Stopped)"
  using asset_count_rejected
      [of "[''BBCA.JK'']" "\<lambda>t. [1 :: real]" "\<lambda>df. df = []" "\<lambda>cols labels. []" 100000000 20]
    asset_count_rejected
      [of "[''A.JK'', ''B.JK'', ''C.JK'', ''D.JK'', ''E.JK'', ''F.JK'']"
          "\<lambda>t. [1 :: real]" "\<lambda>df. df = []" "\<lambda>cols labels. []" 100000000 20]
  by simp

end
